theory Spec2Isabelle
  imports Complex_Main "HOL-Library.Sublist" "HOL-Library.Monad_Syntax"
begin

section \<open>Python values used by the service\<close>

text \<open>
  The embedding follows \<^verbatim>\<open>service/main.py\<close>. Paths and texts are Python \<open>str\<close>,
  encoded images are Python \<open>bytes\<close> (one \<open>char\<close> per byte), integers are unbounded.
  The endpoint only copies floating point values from the metadata records into the
  response, so a float is carried as the exact number it denotes and no rounding is modelled.
\<close>

type_synonym path = string
type_synonym bytes = string
type_synonym pyfloat = rat

text \<open>A Python exception caught by \<^verbatim>\<open>except Exception as e\<close>, carrying \<^verbatim>\<open>str(e)\<close>.\<close>

datatype exn = Exception string

text \<open>
  What leaves the endpoint function when it does not return a response: an
  \<^verbatim>\<open>HTTPException(status_code=..., detail=...)\<close> that the function raises itself, or the
  exception of a call made outside its \<^verbatim>\<open>try\<close> block, which the function does not catch
  (the server answers it with status 500).
\<close>

datatype raised = HTTPException int "string option" | Uncaught exn

subsection \<open>Text of an integer, as an f-string renders it\<close>

definition digit_char :: "nat \<Rightarrow> char" where
  "digit_char d = ''0123456789'' ! (d mod 10)"

fun str_nat :: "nat \<Rightarrow> string" where
  "str_nat n = (if n < 10 then [digit_char n] else str_nat (n div 10) @ [digit_char (n mod 10)])"

declare str_nat.simps [simp del]

definition str_int :: "int \<Rightarrow> string" where
  "str_int i = (if i < 0 then CHR ''-'' # str_nat (nat (- i)) else str_nat (nat i))"

subsection \<open>\<^verbatim>\<open>pathlib.Path(p).name\<close>\<close>

text \<open>
  The final component of a POSIX path: the text is split at \<^verbatim>\<open>/\<close>, empty components and
  \<^verbatim>\<open>.\<close> components are dropped, and the last remaining one is the name (the empty text
  when none remains).
\<close>

fun split_slash :: "string \<Rightarrow> string \<Rightarrow> string list" where
  "split_slash acc [] = [rev acc]"
| "split_slash acc (c # cs) =
     (if c = CHR ''/'' then rev acc # split_slash [] cs else split_slash (c # acc) cs)"

definition path_name :: "path \<Rightarrow> string" where
  "path_name p =
     (case rev (filter (\<lambda>part. part \<noteq> [] \<and> part \<noteq> ''.'') (split_slash [] p)) of
        [] \<Rightarrow> []
      | part # _ \<Rightarrow> part)"

section \<open>Request and response models\<close>

text \<open>\<^verbatim>\<open>class ProcessImageRequest(BaseModel)\<close>.\<close>

record ProcessImageRequest =
  file_path :: path
  coldpreview_size :: "int option"

text \<open>\<^verbatim>\<open>class PhotoEggResponse(BaseModel)\<close>, field for field.\<close>

record PhotoEggResponse =
  hothash :: string
  hotpreview_base64 :: string
  hotpreview_width :: int
  hotpreview_height :: int
  coldpreview_base64 :: "string option"
  coldpreview_width :: "int option"
  coldpreview_height :: "int option"
  primary_filename :: string
  width :: int
  height :: int
  taken_at :: "string option"
  camera_make :: "string option"
  camera_model :: "string option"
  gps_latitude :: "pyfloat option"
  gps_longitude :: "pyfloat option"
  has_gps :: bool
  iso :: "int option"
  aperture :: "pyfloat option"
  shutter_speed :: "string option"
  focal_length :: "pyfloat option"
  lens_model :: "string option"
  lens_make :: "string option"

section \<open>Collaborators of the endpoint\<close>

text \<open>
  Modelled from the spec: the classes \<^verbatim>\<open>BasicMetadata\<close>, \<^verbatim>\<open>CameraSettings\<close>,
  \<^verbatim>\<open>HotPreview\<close> and \<^verbatim>\<open>ColdPreview\<close> are imported by \<^verbatim>\<open>service/main.py\<close> and are
  not among the sources. Each record has the attributes the endpoint reads, with the
  types of the spec's data model; the previews also have the encoded bytes the data model
  gives them. The data model has the width and the height of the metadata always
  populated; as attributes of a Python object they can still be \<^verbatim>\<open>None\<close>, and the response
  model refuses them then, so they are optional here.
\<close>

record BasicMetadata =
  md_taken_at :: "string option"
  md_width :: "int option"
  md_height :: "int option"
  md_camera_make :: "string option"
  md_camera_model :: "string option"
  md_gps_latitude :: "pyfloat option"
  md_gps_longitude :: "pyfloat option"

record CameraSettings =
  cs_iso :: "int option"
  cs_aperture :: "pyfloat option"
  cs_shutter_speed :: "string option"
  cs_focal_length :: "pyfloat option"
  cs_lens_model :: "string option"
  cs_lens_make :: "string option"

record HotPreview =
  hp_bytes :: bytes
  hp_base64 :: string
  hp_hothash :: string
  hp_width :: int
  hp_height :: int

record ColdPreview =
  cp_bytes :: bytes
  cp_base64 :: string
  cp_width :: int
  cp_height :: int

text \<open>
  The functions the endpoint calls, taken as parameters; each of them returns or raises.
  \<^verbatim>\<open>Path.exists\<close> answers whether the file is there, and raises the \<^verbatim>\<open>OSError\<close> of the
  system call for a path that cannot be examined (a name that is too long, a directory
  that may not be searched). \<^verbatim>\<open>ImageValidator.validate_file\<close> returns the pair
  \<^verbatim>\<open>(is_valid, error)\<close>. The four calls of the \<^verbatim>\<open>try\<close> block return their records.
  \<open>validation_error\<close> is the \<^verbatim>\<open>ValidationError\<close> that pydantic raises when the listed
  required fields of the response model are \<^verbatim>\<open>None\<close>; its text is the library's. A call
  on the same file gives the same answer: the file system does not change during a request.
\<close>

record collaborators =
  path_exists :: "path \<Rightarrow> exn + bool"
  validate_file :: "path \<Rightarrow> exn + bool \<times> string option"
  extract_basic :: "path \<Rightarrow> exn + BasicMetadata"
  extract_camera_settings :: "path \<Rightarrow> exn + CameraSettings"
  generate_hotpreview :: "path \<Rightarrow> exn + HotPreview"
  generate_coldpreview :: "path \<Rightarrow> int \<Rightarrow> exn + ColdPreview"
  validation_error :: "string list \<Rightarrow> exn"

text \<open>The calls a request makes on the file, in the order it makes them.\<close>

datatype event =
    PathExists path
  | ValidateFile path
  | ExtractBasic path
  | ExtractCameraSettings path
  | GenerateHotpreview path
  | GenerateColdpreview path int

section \<open>The endpoint\<close>

text \<open>
  One statement of the \<^verbatim>\<open>try\<close> block: the call is recorded; when it raises, the block
  is left with the exception, otherwise the rest of the block runs on its result.
\<close>

definition call ::
  "event \<Rightarrow> exn + 'a \<Rightarrow> ('a \<Rightarrow> event list \<times> (exn + 'b)) \<Rightarrow> event list \<times> (exn + 'b)" where
  "call ev r k =
     (case r of
        Inl e \<Rightarrow> ([ev], Inl e)
      | Inr v \<Rightarrow> (case k v of (tr, res) \<Rightarrow> (ev # tr, res)))"

text \<open>
  Modelled from the spec: \<^verbatim>\<open>CorePhoto\<close> and its \<^verbatim>\<open>to_dict\<close> are not among the
  sources. The endpoint builds \<^verbatim>\<open>CorePhoto(...)\<close> from keyword arguments and returns
  \<^verbatim>\<open>PhotoEggResponse(**photo.to_dict())\<close>; as in the spec's data model, the dictionary
  holds every keyword argument under its own name.
\<close>

record CorePhoto =
  photo_hothash :: string
  photo_hotpreview_base64 :: string
  photo_hotpreview_width :: int
  photo_hotpreview_height :: int
  photo_coldpreview_base64 :: "string option"
  photo_coldpreview_width :: "int option"
  photo_coldpreview_height :: "int option"
  photo_primary_filename :: string
  photo_taken_at :: "string option"
  photo_width :: "int option"
  photo_height :: "int option"
  photo_camera_make :: "string option"
  photo_camera_model :: "string option"
  photo_gps_latitude :: "pyfloat option"
  photo_gps_longitude :: "pyfloat option"
  photo_has_gps :: bool
  photo_iso :: "int option"
  photo_aperture :: "pyfloat option"
  photo_shutter_speed :: "string option"
  photo_focal_length :: "pyfloat option"
  photo_lens_model :: "string option"
  photo_lens_make :: "string option"

text \<open>The call \<^verbatim>\<open>CorePhoto(hothash=hotpreview.hothash, ...)\<close> of lines 174 to 197.\<close>

definition CorePhoto ::
  "HotPreview \<Rightarrow> string option \<Rightarrow> int option \<Rightarrow> int option \<Rightarrow> path \<Rightarrow>
   BasicMetadata \<Rightarrow> CameraSettings \<Rightarrow> CorePhoto" where
  "CorePhoto hotpreview cold_base64 cold_width cold_height fp metadata camera_settings =
     \<lparr> photo_hothash = hp_hothash hotpreview,
       photo_hotpreview_base64 = hp_base64 hotpreview,
       photo_hotpreview_width = hp_width hotpreview,
       photo_hotpreview_height = hp_height hotpreview,
       photo_coldpreview_base64 = cold_base64,
       photo_coldpreview_width = cold_width,
       photo_coldpreview_height = cold_height,
       photo_primary_filename = path_name fp,
       photo_taken_at = md_taken_at metadata,
       photo_width = md_width metadata,
       photo_height = md_height metadata,
       photo_camera_make = md_camera_make metadata,
       photo_camera_model = md_camera_model metadata,
       photo_gps_latitude = md_gps_latitude metadata,
       photo_gps_longitude = md_gps_longitude metadata,
       photo_has_gps = (md_gps_latitude metadata \<noteq> None),
       photo_iso = cs_iso camera_settings,
       photo_aperture = cs_aperture camera_settings,
       photo_shutter_speed = cs_shutter_speed camera_settings,
       photo_focal_length = cs_focal_length camera_settings,
       photo_lens_model = cs_lens_model camera_settings,
       photo_lens_make = cs_lens_make camera_settings \<rparr>"

text \<open>
  \<^verbatim>\<open>PhotoEggResponse(**photo_dict)\<close>: pydantic validates the dictionary against the
  response model. The fields \<open>width\<close> and \<open>height\<close> are declared \<^verbatim>\<open>int\<close>, and the call
  raises when one of them is \<^verbatim>\<open>None\<close>; every other required field has a value by its
  type.
\<close>

definition missing_required :: "CorePhoto \<Rightarrow> string list" where
  "missing_required photo =
     (if photo_width photo = None then [''width''] else [])
     @ (if photo_height photo = None then [''height''] else [])"

definition PhotoEggResponse :: "collaborators \<Rightarrow> CorePhoto \<Rightarrow> exn + PhotoEggResponse" where
  "PhotoEggResponse E photo =
     (case (photo_width photo, photo_height photo) of
        (Some w, Some h) \<Rightarrow>
          Inr \<lparr> hothash = photo_hothash photo,
                hotpreview_base64 = photo_hotpreview_base64 photo,
                hotpreview_width = photo_hotpreview_width photo,
                hotpreview_height = photo_hotpreview_height photo,
                coldpreview_base64 = photo_coldpreview_base64 photo,
                coldpreview_width = photo_coldpreview_width photo,
                coldpreview_height = photo_coldpreview_height photo,
                primary_filename = photo_primary_filename photo,
                width = w,
                height = h,
                taken_at = photo_taken_at photo,
                camera_make = photo_camera_make photo,
                camera_model = photo_camera_model photo,
                gps_latitude = photo_gps_latitude photo,
                gps_longitude = photo_gps_longitude photo,
                has_gps = photo_has_gps photo,
                iso = photo_iso photo,
                aperture = photo_aperture photo,
                shutter_speed = photo_shutter_speed photo,
                focal_length = photo_focal_length photo,
                lens_model = photo_lens_model photo,
                lens_make = photo_lens_make photo \<rparr>
      | _ \<Rightarrow> Inl (validation_error E (missing_required photo)))"

text \<open>The body of the \<^verbatim>\<open>try\<close> block (lines 152 to 202).\<close>

definition process_body ::
  "collaborators \<Rightarrow> ProcessImageRequest \<Rightarrow> event list \<times> (exn + PhotoEggResponse)" where
  "process_body E request =
     (let fp = file_path request in
      call (ExtractBasic fp) (extract_basic E fp) (\<lambda>metadata.
      call (ExtractCameraSettings fp) (extract_camera_settings E fp) (\<lambda>camera_settings.
      call (GenerateHotpreview fp) (generate_hotpreview E fp) (\<lambda>hotpreview.
        (case coldpreview_size request of
           Some max_size \<Rightarrow>
             call (GenerateColdpreview fp max_size) (generate_coldpreview E fp max_size)
               (\<lambda>coldpreview.
                  ([], PhotoEggResponse E
                         (CorePhoto hotpreview
                            (Some (cp_base64 coldpreview))
                            (Some (cp_width coldpreview))
                            (Some (cp_height coldpreview))
                            fp metadata camera_settings)))
         | None \<Rightarrow>
             ([], PhotoEggResponse E
                    (CorePhoto hotpreview None None None fp metadata camera_settings)))))))"

text \<open>
  The endpoint after the check of \<^verbatim>\<open>coldpreview_size\<close>: the file must exist and be
  valid. \<^verbatim>\<open>file_path.exists()\<close> and \<^verbatim>\<open>ImageValidator.validate_file(file_path)\<close> stand
  before the \<^verbatim>\<open>try\<close> block, so an exception of theirs leaves the function as it is.
  The constructor of \<^verbatim>\<open>HTTPException(status_code=400, detail=error)\<close> replaces a detail
  that is \<^verbatim>\<open>None\<close> by the phrase of the status. An exception of the block (of a
  collaborator, or of the assembly of the response) is caught by
  \<^verbatim>\<open>except Exception as e\<close> and becomes the answer \<^verbatim>\<open>Processing failed: {str(e)}\<close>.
\<close>

definition process_file ::
  "collaborators \<Rightarrow> ProcessImageRequest \<Rightarrow> event list \<times> (raised + PhotoEggResponse)" where
  "process_file E request =
     (let fp = file_path request in
      case path_exists E fp of
        Inl e \<Rightarrow> ([PathExists fp], Inl (Uncaught e))
      | Inr found \<Rightarrow>
          if \<not> found then
            ([PathExists fp], Inl (HTTPException 400 (Some (''File not found: '' @ fp))))
          else
            (case validate_file E fp of
               Inl e \<Rightarrow> ([PathExists fp, ValidateFile fp], Inl (Uncaught e))
             | Inr (is_valid, error) \<Rightarrow>
                 if \<not> is_valid then
                   ([PathExists fp, ValidateFile fp],
                    Inl (HTTPException 400
                           (Some (case error of None \<Rightarrow> ''Bad Request'' | Some text \<Rightarrow> text))))
                 else
                   (case process_body E request of
                      (tr, Inl (Exception msg)) \<Rightarrow>
                        (PathExists fp # ValidateFile fp # tr,
                         Inl (HTTPException 400 (Some (''Processing failed: '' @ msg))))
                    | (tr, Inr response) \<Rightarrow>
                        (PathExists fp # ValidateFile fp # tr, Inr response))))"

text \<open>\<^verbatim>\<open>def process_image_endpoint(request)\<close>: the calls made, and the answer.\<close>

definition process_image_endpoint ::
  "collaborators \<Rightarrow> ProcessImageRequest \<Rightarrow> event list \<times> (raised + PhotoEggResponse)" where
  "process_image_endpoint E request =
     (case coldpreview_size request of
        Some n \<Rightarrow>
          if n < 150 then
            ([], Inl (HTTPException 400
                   (Some (''coldpreview_size must be >= 150 (hotpreview size), got '' @ str_int n))))
          else process_file E request
      | None \<Rightarrow> process_file E request)"

text \<open>
  The route \<^verbatim>\<open>POST /v1/process\<close>: FastAPI builds the request model first, and the
  constraint \<^verbatim>\<open>ge=150\<close> of its field refuses a smaller size with status 422 before the
  endpoint function runs (the body of that answer is the framework's and is left out).
  What the endpoint function raises goes through unchanged.
\<close>

definition post_v1_process ::
  "collaborators \<Rightarrow> path \<Rightarrow> int option \<Rightarrow> event list \<times> (raised + PhotoEggResponse)" where
  "post_v1_process E fp csize =
     (case csize of
        Some n \<Rightarrow>
          if n \<ge> 150 then process_image_endpoint E \<lparr> file_path = fp, coldpreview_size = csize \<rparr>
          else ([], Inl (HTTPException 422 None))
      | None \<Rightarrow> process_image_endpoint E \<lparr> file_path = fp, coldpreview_size = csize \<rparr>)"

section \<open>The metadata extractor\<close>

text \<open>
  Modelled from the spec: \<^verbatim>\<open>ExifExtractor\<close> (module
  \<^verbatim>\<open>imalink_core.metadata.exif_extractor\<close>) is not among the sources. The model
  follows section 4.2 of the spec. The EXIF block of a file is the outcome of decoding
  each tag the extractor reads: the tag is missing, it is there and cannot be decoded,
  or it decodes to a value. For a camera setting the value is the one after the decoding
  rules of the section (the APEX conversion of \<^verbatim>\<open>ApertureValue\<close>, the text of the
  exposure time).
\<close>

datatype 'a tag = Missing | Malformed | Decoded 'a

text \<open>The tolerance contract: a tag that is missing or malformed gives no value.\<close>

fun tag_value :: "'a tag \<Rightarrow> 'a option" where
  "tag_value Missing = None"
| "tag_value Malformed = None"
| "tag_value (Decoded v) = Some v"

text \<open>An EXIF rational is a pair of unsigned numbers, numerator and denominator.\<close>

type_synonym rational = "nat \<times> nat"

record exif =
  DateTimeOriginal :: "string tag"
  DateTimeDigitized :: "string tag"
  DateTime :: "string tag"
  Make :: "string tag"
  Model :: "string tag"
  ExifImageWidth :: "int tag"
  ExifImageHeight :: "int tag"
  GPSLatitude :: "(rational \<times> rational \<times> rational) tag"
  GPSLatitudeRef :: "string tag"
  GPSLongitude :: "(rational \<times> rational \<times> rational) tag"
  GPSLongitudeRef :: "string tag"
  ISOSpeedRatings :: "int tag"
  FNumber :: "pyfloat tag"
  ApertureValue :: "pyfloat tag"
  ExposureTime :: "string tag"
  FocalLength :: "pyfloat tag"
  LensModel :: "string tag"
  LensMake :: "string tag"

text \<open>What the container and the file system give without EXIF.\<close>

record container =
  ct_width :: int
  ct_height :: int
  ct_mtime :: string

text \<open>The first value that is present, in the order of the list.\<close>

fun first_present :: "'a option list \<Rightarrow> 'a option" where
  "first_present [] = None"
| "first_present (None # xs) = first_present xs"
| "first_present (Some v # xs) = Some v"

text \<open>
  Timestamp precedence: \<^verbatim>\<open>DateTimeOriginal\<close>, then \<^verbatim>\<open>DateTimeDigitized\<close>, then
  \<^verbatim>\<open>DateTime\<close>, then the modification time of the file.
\<close>

definition select_taken_at :: "exif \<Rightarrow> container \<Rightarrow> string" where
  "select_taken_at x c =
     (case first_present
             [tag_value (DateTimeOriginal x), tag_value (DateTimeDigitized x),
              tag_value (DateTime x)] of
        Some t \<Rightarrow> t
      | None \<Rightarrow> ct_mtime c)"

text \<open>
  GPS coordinates: the degree, minute and second rationals of the coordinate tag and
  the letter of its reference tag give signed decimal degrees. A rational with
  denominator 0 and a letter that names no hemisphere of the axis are malformed.
\<close>

definition rational_value :: "rational \<Rightarrow> rat option" where
  "rational_value r = (case r of (n, d) \<Rightarrow> if d = 0 then None else Some (of_nat n / of_nat d))"

definition dms_to_degrees :: "rational \<times> rational \<times> rational \<Rightarrow> rat option" where
  "dms_to_degrees t =
     (case t of (d, m, s) \<Rightarrow>
        do {
          dv \<leftarrow> rational_value d;
          mv \<leftarrow> rational_value m;
          sv \<leftarrow> rational_value s;
          Some (dv + mv / 60 + sv / 3600)
        })"

definition hemisphere_sign :: "string \<Rightarrow> string \<Rightarrow> string \<Rightarrow> rat option" where
  "hemisphere_sign positive negative letter =
     (if letter = positive then Some 1 else if letter = negative then Some (- 1) else None)"

definition gps_coordinate ::
  "string \<Rightarrow> string \<Rightarrow> (rational \<times> rational \<times> rational) tag \<Rightarrow> string tag \<Rightarrow> pyfloat option" where
  "gps_coordinate positive negative coordinate reference =
     do {
       t \<leftarrow> tag_value coordinate;
       letter \<leftarrow> tag_value reference;
       degrees \<leftarrow> dms_to_degrees t;
       sign \<leftarrow> hemisphere_sign positive negative letter;
       Some (sign * degrees)
     }"

definition ExifExtractor_extract_basic :: "exif \<Rightarrow> container \<Rightarrow> BasicMetadata" where
  "ExifExtractor_extract_basic x c =
     \<lparr> md_taken_at = Some (select_taken_at x c),
       md_width =
         Some (case tag_value (ExifImageWidth x) of Some w \<Rightarrow> w | None \<Rightarrow> ct_width c),
       md_height =
         Some (case tag_value (ExifImageHeight x) of Some h \<Rightarrow> h | None \<Rightarrow> ct_height c),
       md_camera_make = tag_value (Make x),
       md_camera_model = tag_value (Model x),
       md_gps_latitude = gps_coordinate ''N'' ''S'' (GPSLatitude x) (GPSLatitudeRef x),
       md_gps_longitude = gps_coordinate ''E'' ''W'' (GPSLongitude x) (GPSLongitudeRef x) \<rparr>"

text \<open>Aperture: the direct f-number is preferred to the converted APEX value.\<close>

definition ExifExtractor_extract_camera_settings :: "exif \<Rightarrow> CameraSettings" where
  "ExifExtractor_extract_camera_settings x =
     \<lparr> cs_iso = tag_value (ISOSpeedRatings x),
       cs_aperture = first_present [tag_value (FNumber x), tag_value (ApertureValue x)],
       cs_shutter_speed = tag_value (ExposureTime x),
       cs_focal_length = tag_value (FocalLength x),
       cs_lens_model = tag_value (LensModel x),
       cs_lens_make = tag_value (LensMake x) \<rparr>"

text \<open>
  The collaborators with this extractor in place: on a file whose container was
  classified, extraction returns its two records and never raises.
\<close>

definition with_ExifExtractor ::
  "collaborators \<Rightarrow> (path \<Rightarrow> exif) \<Rightarrow> (path \<Rightarrow> container) \<Rightarrow> collaborators" where
  "with_ExifExtractor E read_exif read_container =
     E \<lparr> extract_basic :=
           (\<lambda>p. Inr (ExifExtractor_extract_basic (read_exif p) (read_container p))),
         extract_camera_settings :=
           (\<lambda>p. Inr (ExifExtractor_extract_camera_settings (read_exif p))) \<rparr>"

section \<open>The preview generator\<close>

subsection \<open>\<^verbatim>\<open>base64.b64encode\<close>\<close>

definition b64_char :: "nat \<Rightarrow> char" where
  "b64_char n =
     ''ABCDEFGHIJKLMNOPQRSTUVWXYZabcdefghijklmnopqrstuvwxyz0123456789+/'' ! (n mod 64)"

fun b64encode :: "bytes \<Rightarrow> string" where
  "b64encode [] = []"
| "b64encode [a] =
     (let n = (of_char a :: nat) * 65536
      in [b64_char (n div 262144), b64_char (n div 4096), CHR ''='', CHR ''=''])"
| "b64encode [a, b] =
     (let n = (of_char a :: nat) * 65536 + of_char b * 256
      in [b64_char (n div 262144), b64_char (n div 4096), b64_char (n div 64), CHR ''=''])"
| "b64encode (a # b # c # rest) =
     (let n = (of_char a :: nat) * 65536 + of_char b * 256 + of_char c
      in [b64_char (n div 262144), b64_char (n div 4096), b64_char (n div 64), b64_char n])
     @ b64encode rest"

subsection \<open>The size of the hotpreview\<close>

text \<open>
  Modelled from the spec: \<^verbatim>\<open>PreviewGenerator.generate_hotpreview\<close> (module
  \<^verbatim>\<open>imalink_core.preview.generator\<close>) is not among the sources. The model follows
  section 4.3 of the spec on the sizes: the decoded image is scaled so that its shorter
  edge reaches the target (the longer edge in proportion, rounded to the nearest pixel),
  and the longer axis is cropped around the centre. The resampling of the pixels, the
  JPEG encoder and the digest of HothashCalculator are parameters.
\<close>

definition scale_shorter_edge :: "nat \<Rightarrow> nat \<times> nat \<Rightarrow> nat \<times> nat" where
  "scale_shorter_edge target wh =
     (case wh of (w, h) \<Rightarrow>
        if w \<le> h then (target, (h * target + w div 2) div w)
        else ((w * target + h div 2) div h, target))"

text \<open>The crop box \<open>(left, upper, right, lower)\<close> of the given size around the centre.\<close>

definition center_crop :: "nat \<Rightarrow> nat \<times> nat \<Rightarrow> nat \<times> nat \<times> nat \<times> nat" where
  "center_crop target wh =
     (case wh of (w, h) \<Rightarrow>
        let left = (w - target) div 2; upper = (h - target) div 2
        in (left, upper, left + target, upper + target))"

definition box_size :: "nat \<times> nat \<times> nat \<times> nat \<Rightarrow> nat \<times> nat" where
  "box_size box = (case box of (left, upper, right, lower) \<Rightarrow> (right - left, lower - upper))"

definition hotpreview_size :: "nat \<times> nat \<Rightarrow> nat \<times> nat" where
  "hotpreview_size wh = box_size (center_crop 150 (scale_shorter_edge 150 wh))"

text \<open>
  \<open>decode p\<close> is the size of the decoded, orientation-corrected image of file \<open>p\<close>
  (\<open>None\<close> when the pixels cannot be decoded), \<open>encode p\<close> the bytes of its re-encoded
  thumbnail and \<open>digest\<close> the hexadecimal digest of a byte buffer. An image without
  pixels cannot be scaled.
\<close>

definition PreviewGenerator_generate_hotpreview ::
  "(path \<Rightarrow> (nat \<times> nat) option) \<Rightarrow> (path \<Rightarrow> bytes) \<Rightarrow> (bytes \<Rightarrow> string) \<Rightarrow> path \<Rightarrow>
   exn + HotPreview" where
  "PreviewGenerator_generate_hotpreview decode encode digest p =
     (case decode p of
        None \<Rightarrow> Inl (Exception ''PreviewGenerationError'')
      | Some (w, h) \<Rightarrow>
          if w = 0 \<or> h = 0 then Inl (Exception ''PreviewGenerationError'')
          else
            (case hotpreview_size (w, h) of
               (pw, ph) \<Rightarrow>
                 Inr \<lparr> hp_bytes = encode p,
                       hp_base64 = b64encode (encode p),
                       hp_hothash = digest (encode p),
                       hp_width = int pw,
                       hp_height = int ph \<rparr>))"

section \<open>The sequence of the orchestrator\<close>

text \<open>
  The order section 4.5 of the spec gives the steps: classify and validate the input,
  extract the metadata, generate the hotpreview with its hash, generate the coldpreview
  when a size is given, assemble the output record. The calls on the file that these steps
  make are compared below with the calls the endpoint makes.
\<close>

definition orchestrator_sequence :: "ProcessImageRequest \<Rightarrow> event list" where
  "orchestrator_sequence request =
     [PathExists (file_path request), ValidateFile (file_path request),
      ExtractBasic (file_path request), ExtractCameraSettings (file_path request),
      GenerateHotpreview (file_path request)]
     @ (case coldpreview_size request of
          Some max_size \<Rightarrow> [GenerateColdpreview (file_path request) max_size]
        | None \<Rightarrow> [])"

text \<open>A call of a collaborator has returned, with a value, when it did not raise.\<close>

fun returned :: "exn + 'a \<Rightarrow> bool" where
  "returned (Inl e) = False"
| "returned (Inr v) = True"

text \<open>The error of the spec's taxonomy for an exception raised during the processing.\<close>

definition processing_failed :: "exn \<Rightarrow> raised" where
  "processing_failed e =
     (case e of Exception msg \<Rightarrow> HTTPException 400 (Some (''Processing failed: '' @ msg)))"

text \<open>
  The hard failure of a step, if any: the error with which the call ends when the step
  is the first one to fail. The file is missing or cannot be examined, it is not a valid
  image, or the extraction or a generator raised. A step succeeds when it has no failure.
\<close>

fun step_error :: "collaborators \<Rightarrow> event \<Rightarrow> raised option" where
  "step_error E (PathExists p) =
     (case path_exists E p of
        Inl e \<Rightarrow> Some (Uncaught e)
      | Inr found \<Rightarrow>
          if found then None else Some (HTTPException 400 (Some (''File not found: '' @ p))))"
| "step_error E (ValidateFile p) =
     (case validate_file E p of
        Inl e \<Rightarrow> Some (Uncaught e)
      | Inr (is_valid, error) \<Rightarrow>
          if is_valid then None
          else Some (HTTPException 400
                       (Some (case error of None \<Rightarrow> ''Bad Request'' | Some text \<Rightarrow> text))))"
| "step_error E (ExtractBasic p) =
     (case extract_basic E p of Inl e \<Rightarrow> Some (processing_failed e) | Inr v \<Rightarrow> None)"
| "step_error E (ExtractCameraSettings p) =
     (case extract_camera_settings E p of Inl e \<Rightarrow> Some (processing_failed e) | Inr v \<Rightarrow> None)"
| "step_error E (GenerateHotpreview p) =
     (case generate_hotpreview E p of Inl e \<Rightarrow> Some (processing_failed e) | Inr v \<Rightarrow> None)"
| "step_error E (GenerateColdpreview p max_size) =
     (case generate_coldpreview E p max_size of
        Inl e \<Rightarrow> Some (processing_failed e)
      | Inr v \<Rightarrow> None)"

definition succeeded :: "collaborators \<Rightarrow> event \<Rightarrow> bool" where
  "succeeded E ev = (step_error E ev = None)"

text \<open>
  The last step, the assembly of the output record, written out from section 6 of the
  spec: the identity and the hotpreview fields come from the hotpreview, the coldpreview
  fields from the coldpreview when there is one, the file name from the path, the other
  fields from the two metadata records, and \<open>has_gps\<close> is derived from the latitude.
  Without a width or a height there is no record: the validation of the response fails.
\<close>

definition assembled ::
  "collaborators \<Rightarrow> path \<Rightarrow> BasicMetadata \<Rightarrow> CameraSettings \<Rightarrow> HotPreview \<Rightarrow>
   ColdPreview option \<Rightarrow> raised + PhotoEggResponse" where
  "assembled E fp md cs hp cold =
     (case (md_width md, md_height md) of
        (Some w, Some h) \<Rightarrow>
          Inr \<lparr> hothash = hp_hothash hp,
                hotpreview_base64 = hp_base64 hp,
                hotpreview_width = hp_width hp,
                hotpreview_height = hp_height hp,
                coldpreview_base64 = map_option cp_base64 cold,
                coldpreview_width = map_option cp_width cold,
                coldpreview_height = map_option cp_height cold,
                primary_filename = path_name fp,
                width = w,
                height = h,
                taken_at = md_taken_at md,
                camera_make = md_camera_make md,
                camera_model = md_camera_model md,
                gps_latitude = md_gps_latitude md,
                gps_longitude = md_gps_longitude md,
                has_gps = (md_gps_latitude md \<noteq> None),
                iso = cs_iso cs,
                aperture = cs_aperture cs,
                shutter_speed = cs_shutter_speed cs,
                focal_length = cs_focal_length cs,
                lens_model = cs_lens_model cs,
                lens_make = cs_lens_make cs \<rparr>
      | (None, Some h) \<Rightarrow> Inl (processing_failed (validation_error E [''width'']))
      | (Some w, None) \<Rightarrow> Inl (processing_failed (validation_error E [''height'']))
      | (None, None) \<Rightarrow> Inl (processing_failed (validation_error E [''width'', ''height''])))"

section \<open>Concrete inputs\<close>

text \<open>
  A file \<^verbatim>\<open>/photos/IMG_1234.jpg\<close> (the path of the package's own example) and what the
  collaborators answer for it; no other path exists.
\<close>

definition jpeg_bytes :: bytes where
  "jpeg_bytes = [CHR 0xFF, CHR 0xD8, CHR 0xFF]"

definition sample_hotpreview :: HotPreview where
  "sample_hotpreview =
     \<lparr> hp_bytes = jpeg_bytes,
       hp_base64 = ''/9j/'',
       hp_hothash = ''6e568e1f67fba258184c78181539e5e8fdee447e49bb706fc0ea34fbf12336a5'',
       hp_width = 150,
       hp_height = 150 \<rparr>"

definition sample_coldpreview :: ColdPreview where
  "sample_coldpreview =
     \<lparr> cp_bytes = jpeg_bytes, cp_base64 = ''/9j/'', cp_width = 2560, cp_height = 1707 \<rparr>"

definition sample_metadata :: BasicMetadata where
  "sample_metadata =
     \<lparr> md_taken_at = Some ''2024-05-17T10:15:30'',
       md_width = Some 6000,
       md_height = Some 4000,
       md_camera_make = Some ''FUJIFILM'',
       md_camera_model = Some ''FinePix E500'',
       md_gps_latitude = Some (599 / 10),
       md_gps_longitude = Some (43 / 4) \<rparr>"

definition sample_settings :: CameraSettings where
  "sample_settings =
     \<lparr> cs_iso = Some 200,
       cs_aperture = Some (28 / 10),
       cs_shutter_speed = Some ''1/200'',
       cs_focal_length = Some 35,
       cs_lens_model = None,
       cs_lens_make = None \<rparr>"

definition sample_collaborators :: collaborators where
  "sample_collaborators =
     \<lparr> path_exists = (\<lambda>p. Inr (p = ''/photos/IMG_1234.jpg'')),
       validate_file = (\<lambda>p. Inr (True, None)),
       extract_basic = (\<lambda>p. Inr sample_metadata),
       extract_camera_settings = (\<lambda>p. Inr sample_settings),
       generate_hotpreview = (\<lambda>p. Inr sample_hotpreview),
       generate_coldpreview = (\<lambda>p max_size. Inr sample_coldpreview),
       validation_error = (\<lambda>fields. Exception ''validation error for PhotoEggResponse'') \<rparr>"

text \<open>The same collaborators for a file whose pixels cannot be decoded.\<close>

definition broken_collaborators :: collaborators where
  "broken_collaborators =
     sample_collaborators
       \<lparr> generate_hotpreview := (\<lambda>p. Inl (Exception ''cannot identify image file'')) \<rparr>"

definition sample_request :: "int option \<Rightarrow> ProcessImageRequest" where
  "sample_request csize = \<lparr> file_path = ''/photos/IMG_1234.jpg'', coldpreview_size = csize \<rparr>"

definition missing_request :: "int option \<Rightarrow> ProcessImageRequest" where
  "missing_request csize = \<lparr> file_path = ''/photos/missing.jpg'', coldpreview_size = csize \<rparr>"

text \<open>The answer for the sample file, with the given coldpreview fields.\<close>

definition sample_egg :: "string option \<Rightarrow> int option \<Rightarrow> int option \<Rightarrow> PhotoEggResponse" where
  "sample_egg cold_base64 cold_width cold_height =
     \<lparr> hothash = ''6e568e1f67fba258184c78181539e5e8fdee447e49bb706fc0ea34fbf12336a5'',
       hotpreview_base64 = ''/9j/'',
       hotpreview_width = 150,
       hotpreview_height = 150,
       coldpreview_base64 = cold_base64,
       coldpreview_width = cold_width,
       coldpreview_height = cold_height,
       primary_filename = ''IMG_1234.jpg'',
       width = 6000,
       height = 4000,
       taken_at = Some ''2024-05-17T10:15:30'',
       camera_make = Some ''FUJIFILM'',
       camera_model = Some ''FinePix E500'',
       gps_latitude = Some (599 / 10),
       gps_longitude = Some (43 / 4),
       has_gps = True,
       iso = Some 200,
       aperture = Some (28 / 10),
       shutter_speed = Some ''1/200'',
       focal_length = Some 35,
       lens_model = None,
       lens_make = None \<rparr>"

text \<open>An EXIF block that decodes, and one whose camera and GPS tags are corrupted.\<close>

definition intact_exif :: exif where
  "intact_exif =
     \<lparr> DateTimeOriginal = Decoded ''2024-05-17T10:15:30'',
       DateTimeDigitized = Decoded ''2024-05-17T10:15:31'',
       DateTime = Decoded ''2024-06-01T08:00:00'',
       Make = Decoded ''FUJIFILM'',
       Model = Decoded ''FinePix E500'',
       ExifImageWidth = Decoded 6000,
       ExifImageHeight = Decoded 4000,
       GPSLatitude = Decoded ((59, 1), (54, 1), (0, 1)),
       GPSLatitudeRef = Decoded ''N'',
       GPSLongitude = Decoded ((10, 1), (45, 1), (0, 1)),
       GPSLongitudeRef = Decoded ''W'',
       ISOSpeedRatings = Decoded 200,
       FNumber = Decoded (28 / 10),
       ApertureValue = Decoded 3,
       ExposureTime = Decoded ''1/200'',
       FocalLength = Decoded 35,
       LensModel = Missing,
       LensMake = Missing \<rparr>"

definition corrupted_exif :: exif where
  "corrupted_exif =
     intact_exif \<lparr> DateTimeOriginal := Malformed, Make := Malformed, Model := Missing,
                   GPSLatitude := Malformed, GPSLongitudeRef := Missing,
                   ISOSpeedRatings := Malformed \<rparr>"

definition sample_container :: container where
  "sample_container = \<lparr> ct_width = 6000, ct_height = 4000, ct_mtime = ''2024-07-01T12:00:00'' \<rparr>"

text \<open>A stand-in for the digest: the SHA-256 of the sample bytes, in hexadecimal.\<close>

definition sample_digest :: "bytes \<Rightarrow> string" where
  "sample_digest data =
     (if data = jpeg_bytes then ''6e568e1f67fba258184c78181539e5e8fdee447e49bb706fc0ea34fbf12336a5''
      else [])"

section \<open>What a successful call has done\<close>

lemma call_Inr:
  "call ev r k = (tr, Inr y) \<longleftrightarrow> (\<exists>v tr'. r = Inr v \<and> k v = (tr', Inr y) \<and> tr = ev # tr')"
  by (auto simp: call_def split: sum.splits prod.splits)

text \<open>The response that the validation lets through has the values of the \<open>CorePhoto\<close>.\<close>

lemma PhotoEggResponse_Inr:
  assumes "PhotoEggResponse E photo = Inr r"
  shows "hothash r = photo_hothash photo \<and>
         hotpreview_base64 r = photo_hotpreview_base64 photo \<and>
         hotpreview_width r = photo_hotpreview_width photo \<and>
         hotpreview_height r = photo_hotpreview_height photo \<and>
         coldpreview_base64 r = photo_coldpreview_base64 photo \<and>
         coldpreview_width r = photo_coldpreview_width photo \<and>
         coldpreview_height r = photo_coldpreview_height photo \<and>
         primary_filename r = photo_primary_filename photo \<and>
         Some (width r) = photo_width photo \<and>
         Some (height r) = photo_height photo \<and>
         taken_at r = photo_taken_at photo \<and>
         camera_make r = photo_camera_make photo \<and>
         camera_model r = photo_camera_model photo \<and>
         gps_latitude r = photo_gps_latitude photo \<and>
         gps_longitude r = photo_gps_longitude photo \<and>
         has_gps r = photo_has_gps photo \<and>
         iso r = photo_iso photo \<and>
         aperture r = photo_aperture photo \<and>
         shutter_speed r = photo_shutter_speed photo \<and>
         focal_length r = photo_focal_length photo \<and>
         lens_model r = photo_lens_model photo \<and>
         lens_make r = photo_lens_make photo"
  using assms by (auto simp: PhotoEggResponse_def split: option.splits)

lemma PhotoEggResponse_returns:
  assumes "photo_width photo = Some w" and "photo_height photo = Some h"
  shows "\<exists>r. PhotoEggResponse E photo = Inr r"
  using assms by (simp add: PhotoEggResponse_def)

text \<open>
  The assembly of the endpoint (the \<open>CorePhoto\<close>, its validation, and the handler of the
  \<^verbatim>\<open>try\<close> block around them) gives what the last step of the sequence asks for.
\<close>

lemma assembly_refines:
  "(case PhotoEggResponse E
           (CorePhoto hp (map_option cp_base64 cold) (map_option cp_width cold)
              (map_option cp_height cold) fp md cs) of
      Inl (Exception msg) \<Rightarrow> Inl (HTTPException 400 (Some (''Processing failed: '' @ msg)))
    | Inr r \<Rightarrow> Inr r) =
   assembled E fp md cs hp cold"
  by (cases "md_width md"; cases "md_height md")
    (auto simp: PhotoEggResponse_def CorePhoto_def assembled_def missing_required_def
      processing_failed_def split: exn.splits)

lemma assembled_returns:
  assumes "md_width md = Some w" and "md_height md = Some h"
  shows "\<exists>r. assembled E fp md cs hp cold = Inr r"
  using assms by (simp add: assembled_def)

lemma assembled_Inr:
  assumes "assembled E fp md cs hp cold = Inr r"
  shows "hothash r = hp_hothash hp \<and>
         camera_make r = md_camera_make md \<and> camera_model r = md_camera_model md \<and>
         gps_latitude r = md_gps_latitude md \<and> gps_longitude r = md_gps_longitude md \<and>
         has_gps r = (md_gps_latitude md \<noteq> None) \<and>
         iso r = cs_iso cs \<and> aperture r = cs_aperture cs \<and>
         shutter_speed r = cs_shutter_speed cs \<and> focal_length r = cs_focal_length cs \<and>
         lens_model r = cs_lens_model cs \<and> lens_make r = cs_lens_make cs"
  using assms by (auto simp: assembled_def split: option.splits)

lemma process_body_Inr:
  "process_body E request = (tr, Inr r) \<longleftrightarrow>
     (\<exists>md cs hp.
        extract_basic E (file_path request) = Inr md \<and>
        extract_camera_settings E (file_path request) = Inr cs \<and>
        generate_hotpreview E (file_path request) = Inr hp \<and>
        (case coldpreview_size request of
           None \<Rightarrow>
             tr = [ExtractBasic (file_path request), ExtractCameraSettings (file_path request),
                   GenerateHotpreview (file_path request)] \<and>
             PhotoEggResponse E (CorePhoto hp None None None (file_path request) md cs) = Inr r
         | Some n \<Rightarrow>
             (\<exists>cp. generate_coldpreview E (file_path request) n = Inr cp \<and>
               tr = [ExtractBasic (file_path request), ExtractCameraSettings (file_path request),
                     GenerateHotpreview (file_path request),
                     GenerateColdpreview (file_path request) n] \<and>
               PhotoEggResponse E
                 (CorePhoto hp (Some (cp_base64 cp)) (Some (cp_width cp)) (Some (cp_height cp))
                    (file_path request) md cs) = Inr r)))"
  unfolding process_body_def Let_def call_Inr
  by (cases "coldpreview_size request") (auto simp: call_Inr)

lemma process_file_Inr:
  "process_file E request = (tr, Inr r) \<longleftrightarrow>
     path_exists E (file_path request) = Inr True \<and>
     (\<exists>error. validate_file E (file_path request) = Inr (True, error)) \<and>
     (\<exists>tr'. process_body E request = (tr', Inr r) \<and>
        tr = PathExists (file_path request) # ValidateFile (file_path request) # tr')"
  unfolding process_file_def Let_def
  by (auto split: prod.splits sum.splits exn.splits)

lemma process_image_endpoint_Inr:
  "process_image_endpoint E request = (tr, Inr r) \<longleftrightarrow>
     (\<forall>n. coldpreview_size request = Some n \<longrightarrow> 150 \<le> n) \<and> process_file E request = (tr, Inr r)"
  unfolding process_image_endpoint_def
  by (auto split: option.splits)

text \<open>
  A call that answers with a record found the file, found it valid, and got a record
  from each collaborator it called; the answer is the validated \<open>CorePhoto\<close> of those
  records.
\<close>

lemma successful_call:
  assumes "snd (process_image_endpoint E request) = Inr r"
  shows "\<exists>md cs hp.
           path_exists E (file_path request) = Inr True \<and>
           (\<exists>error. validate_file E (file_path request) = Inr (True, error)) \<and>
           extract_basic E (file_path request) = Inr md \<and>
           extract_camera_settings E (file_path request) = Inr cs \<and>
           generate_hotpreview E (file_path request) = Inr hp \<and>
           (case coldpreview_size request of
              None \<Rightarrow>
                PhotoEggResponse E (CorePhoto hp None None None (file_path request) md cs) = Inr r
            | Some n \<Rightarrow>
                150 \<le> n \<and>
                (\<exists>cp. generate_coldpreview E (file_path request) n = Inr cp \<and>
                   PhotoEggResponse E
                     (CorePhoto hp (Some (cp_base64 cp)) (Some (cp_width cp))
                        (Some (cp_height cp)) (file_path request) md cs) = Inr r))"
proof -
  obtain tr where run: "process_image_endpoint E request = (tr, Inr r)"
    using assms by (cases "process_image_endpoint E request") simp
  then obtain tr' where size_ok: "\<forall>n. coldpreview_size request = Some n \<longrightarrow> 150 \<le> n"
    and file_ok: "path_exists E (file_path request) = Inr True"
      "\<exists>error. validate_file E (file_path request) = Inr (True, error)"
    and body: "process_body E request = (tr', Inr r)"
    unfolding process_image_endpoint_Inr process_file_Inr by blast
  from body size_ok file_ok show ?thesis
    unfolding process_body_Inr by (cases "coldpreview_size request") auto
qed

text \<open>The fields of the record of a successful call, from the records of the collaborators.\<close>

lemma successful_call_fields:
  assumes "snd (process_image_endpoint E request) = Inr r"
  shows "\<exists>md cs hp.
           extract_basic E (file_path request) = Inr md \<and>
           extract_camera_settings E (file_path request) = Inr cs \<and>
           generate_hotpreview E (file_path request) = Inr hp \<and>
           hothash r = hp_hothash hp \<and> hotpreview_base64 r = hp_base64 hp \<and>
           hotpreview_width r = hp_width hp \<and> hotpreview_height r = hp_height hp \<and>
           gps_latitude r = md_gps_latitude md \<and> has_gps r = (md_gps_latitude md \<noteq> None) \<and>
           (case coldpreview_size request of
              None \<Rightarrow>
                coldpreview_base64 r = None \<and> coldpreview_width r = None \<and>
                coldpreview_height r = None
            | Some n \<Rightarrow>
                \<exists>cp. generate_coldpreview E (file_path request) n = Inr cp \<and>
                  coldpreview_base64 r = Some (cp_base64 cp) \<and>
                  coldpreview_width r = Some (cp_width cp) \<and>
                  coldpreview_height r = Some (cp_height cp))"
proof -
  from successful_call [OF assms] obtain md cs hp where
    md: "extract_basic E (file_path request) = Inr md"
    and cs: "extract_camera_settings E (file_path request) = Inr cs"
    and hp: "generate_hotpreview E (file_path request) = Inr hp"
    and cold: "case coldpreview_size request of
              None \<Rightarrow>
                PhotoEggResponse E (CorePhoto hp None None None (file_path request) md cs) = Inr r
            | Some n \<Rightarrow>
                150 \<le> n \<and>
                (\<exists>cp. generate_coldpreview E (file_path request) n = Inr cp \<and>
                   PhotoEggResponse E
                     (CorePhoto hp (Some (cp_base64 cp)) (Some (cp_width cp))
                        (Some (cp_height cp)) (file_path request) md cs) = Inr r)"
    by blast
  show ?thesis
  proof (cases "coldpreview_size request")
    case None
    with cold have "PhotoEggResponse E (CorePhoto hp None None None (file_path request) md cs) = Inr r"
      by simp
    from PhotoEggResponse_Inr [OF this] md cs hp None show ?thesis
      by (simp add: CorePhoto_def)
  next
    case (Some n)
    with cold obtain cp where cp: "generate_coldpreview E (file_path request) n = Inr cp"
      and "PhotoEggResponse E
             (CorePhoto hp (Some (cp_base64 cp)) (Some (cp_width cp))
                (Some (cp_height cp)) (file_path request) md cs) = Inr r"
      by auto
    from PhotoEggResponse_Inr [OF this(2)] md cs hp cp Some show ?thesis
      by (simp add: CorePhoto_def)
  qed
qed

text \<open>The converse: when every collaborator answers, the call ends with the assembly.\<close>

lemma call_returns:
  assumes "\<forall>n. coldpreview_size request = Some n \<longrightarrow> 150 \<le> n"
    and "path_exists E (file_path request) = Inr True"
    and "validate_file E (file_path request) = Inr (True, error)"
    and "extract_basic E (file_path request) = Inr md"
    and "extract_camera_settings E (file_path request) = Inr cs"
    and "generate_hotpreview E (file_path request) = Inr hp"
    and "\<forall>n. coldpreview_size request = Some n \<longrightarrow> generate_coldpreview E (file_path request) n = Inr (cp n)"
  shows "process_image_endpoint E request =
           (orchestrator_sequence request,
            assembled E (file_path request) md cs hp (map_option cp (coldpreview_size request)))"
proof (cases "coldpreview_size request")
  case None
  with assms assembly_refines [of E hp None "file_path request" md cs] show ?thesis
    by (auto simp: process_image_endpoint_def process_file_def process_body_def call_def Let_def
        orchestrator_sequence_def split: sum.splits exn.splits)
next
  case (Some n)
  with assms assembly_refines [of E hp "Some (cp n)" "file_path request" md cs] show ?thesis
    by (auto simp: process_image_endpoint_def process_file_def process_body_def call_def Let_def
        orchestrator_sequence_def split: sum.splits exn.splits)
qed

text \<open>
  The endpoint does not absorb an exception of the extractor: it becomes the answer
  \<^verbatim>\<open>Processing failed\<close> like any other exception of the \<^verbatim>\<open>try\<close> block.
\<close>

lemma extractor_exception_is_fatal:
  assumes "\<forall>n. coldpreview_size request = Some n \<longrightarrow> 150 \<le> n"
    and "path_exists E (file_path request) = Inr True"
    and "validate_file E (file_path request) = Inr (True, error)"
    and "extract_basic E (file_path request) = Inl (Exception msg)"
  shows "process_image_endpoint E request =
           ([PathExists (file_path request), ValidateFile (file_path request),
             ExtractBasic (file_path request)],
            Inl (HTTPException 400 (Some (''Processing failed: '' @ msg))))"
  using assms
  by (auto simp: process_image_endpoint_def process_file_def process_body_def call_def Let_def
      split: option.splits prod.splits)

text \<open>
  Nor does it catch what \<^verbatim>\<open>Path.exists\<close> raises: the exception leaves the function. A
  file whose validation gives no message is refused with the phrase of the status.
\<close>

lemma exists_exception_is_uncaught:
  assumes "\<forall>n. coldpreview_size request = Some n \<longrightarrow> 150 \<le> n"
    and "path_exists E (file_path request) = Inl e"
  shows "process_image_endpoint E request = ([PathExists (file_path request)], Inl (Uncaught e))"
  using assms
  by (auto simp: process_image_endpoint_def process_file_def Let_def split: option.splits)

lemma invalid_file_without_message:
  assumes "\<forall>n. coldpreview_size request = Some n \<longrightarrow> 150 \<le> n"
    and "path_exists E (file_path request) = Inr True"
    and "validate_file E (file_path request) = Inr (False, None)"
  shows "process_image_endpoint E request =
           ([PathExists (file_path request), ValidateFile (file_path request)],
            Inl (HTTPException 400 (Some ''Bad Request'')))"
  using assms
  by (auto simp: process_image_endpoint_def process_file_def Let_def split: option.splits)

text \<open>A record without its width does not pass the response model.\<close>

lemma missing_dimension_is_fatal:
  assumes "\<forall>n. coldpreview_size request = Some n \<longrightarrow> 150 \<le> n"
    and "path_exists E (file_path request) = Inr True"
    and "validate_file E (file_path request) = Inr (True, error)"
    and "extract_basic E (file_path request) = Inr md" and "md_width md = None"
    and "extract_camera_settings E (file_path request) = Inr cs"
    and "generate_hotpreview E (file_path request) = Inr hp"
    and "\<forall>n. coldpreview_size request = Some n \<longrightarrow> generate_coldpreview E (file_path request) n = Inr (cp n)"
  shows "\<exists>fields. snd (process_image_endpoint E request) =
                    Inl (processing_failed (validation_error E fields)) \<and>
                  ''width'' \<in> set fields"
proof -
  have "\<exists>fields. assembled E (file_path request) md cs hp cold =
                    Inl (processing_failed (validation_error E fields)) \<and>
                  ''width'' \<in> set fields"
    for cold
    using assms(5) by (cases "md_height md") (auto simp: assembled_def)
  with call_returns [OF assms(1-4) assms(6-8)] show ?thesis
    by simp
qed

text \<open>The route refuses a small size before the endpoint function is entered.\<close>

lemma post_v1_process_small_size:
  "n < 150 \<Longrightarrow> post_v1_process E fp (Some n) = ([], Inl (HTTPException 422 None))"
  by (simp add: post_v1_process_def)

section \<open>The calls on the sample file\<close>

lemma sample_path_name: "path_name ''/photos/IMG_1234.jpg'' = ''IMG_1234.jpg''"
  by (simp add: path_name_def)

lemma sample_PhotoEggResponse:
  "PhotoEggResponse E
     (CorePhoto sample_hotpreview b w h ''/photos/IMG_1234.jpg'' sample_metadata sample_settings) =
   Inr (sample_egg b w h)"
  by (simp add: PhotoEggResponse_def CorePhoto_def sample_egg_def sample_hotpreview_def
      sample_metadata_def sample_settings_def sample_path_name)

lemma sample_run:
  "process_image_endpoint sample_collaborators (sample_request None) =
     ([PathExists ''/photos/IMG_1234.jpg'', ValidateFile ''/photos/IMG_1234.jpg'',
       ExtractBasic ''/photos/IMG_1234.jpg'', ExtractCameraSettings ''/photos/IMG_1234.jpg'',
       GenerateHotpreview ''/photos/IMG_1234.jpg''],
      Inr (sample_egg None None None))"
  by (simp add: process_image_endpoint_def process_file_def process_body_def call_def Let_def
      sample_collaborators_def sample_request_def sample_PhotoEggResponse)

lemma sample_run_cold:
  "process_image_endpoint sample_collaborators (sample_request (Some 2560)) =
     ([PathExists ''/photos/IMG_1234.jpg'', ValidateFile ''/photos/IMG_1234.jpg'',
       ExtractBasic ''/photos/IMG_1234.jpg'', ExtractCameraSettings ''/photos/IMG_1234.jpg'',
       GenerateHotpreview ''/photos/IMG_1234.jpg'',
       GenerateColdpreview ''/photos/IMG_1234.jpg'' 2560],
      Inr (sample_egg (Some ''/9j/'') (Some 2560) (Some 1707)))"
  by (simp add: process_image_endpoint_def process_file_def process_body_def call_def Let_def
      sample_collaborators_def sample_request_def sample_PhotoEggResponse sample_coldpreview_def)

lemma str_int_100: "str_int 100 = ''100''"
  by (simp add: str_int_def str_nat.simps digit_char_def)

section \<open>Properties of the endpoint\<close>

text \<open>
  C1. For a valid image, the \<open>hothash\<close> of the returned record is the same on every call
  for the same file, whatever the \<open>coldpreview_size\<close> of the call (absent or given): two
  calls for one file that both return a record return the same \<open>hothash\<close>. The hotpreview
  is generated from the file alone, and the size is never passed to its generator.
\<close>

theorem hothash_independent_of_coldpreview_size:
  assumes "snd (process_image_endpoint E \<lparr> file_path = fp, coldpreview_size = size1 \<rparr>) = Inr r1"
    and "snd (process_image_endpoint E \<lparr> file_path = fp, coldpreview_size = size2 \<rparr>) = Inr r2"
  shows "hothash r1 = hothash r2"
proof -
  from successful_call_fields [OF assms(1)] obtain hp1 where
    hp1: "generate_hotpreview E fp = Inr hp1" and h1: "hothash r1 = hp_hothash hp1"
    by auto
  from successful_call_fields [OF assms(2)] obtain hp2 where
    hp2: "generate_hotpreview E fp = Inr hp2" and h2: "hothash r2 = hp_hothash hp2"
    by auto
  from hp1 hp2 have "hp1 = hp2" by simp
  with h1 h2 show ?thesis by simp
qed

theorem hothash_independent_of_coldpreview_size_witness:
  "snd (process_image_endpoint sample_collaborators
          \<lparr> file_path = ''/photos/IMG_1234.jpg'', coldpreview_size = None \<rparr>) =
     Inr (sample_egg None None None) \<and>
   snd (process_image_endpoint sample_collaborators
          \<lparr> file_path = ''/photos/IMG_1234.jpg'', coldpreview_size = Some 2560 \<rparr>) =
     Inr (sample_egg (Some ''/9j/'') (Some 2560) (Some 1707)) \<and>
   hothash (sample_egg None None None) = hothash (sample_egg (Some ''/9j/'') (Some 2560) (Some 1707))"
proof -
  have a: "snd (process_image_endpoint sample_collaborators
              \<lparr> file_path = ''/photos/IMG_1234.jpg'', coldpreview_size = None \<rparr>) =
           Inr (sample_egg None None None)"
    using sample_run by (simp add: sample_request_def)
  have b: "snd (process_image_endpoint sample_collaborators
              \<lparr> file_path = ''/photos/IMG_1234.jpg'', coldpreview_size = Some 2560 \<rparr>) =
           Inr (sample_egg (Some ''/9j/'') (Some 2560) (Some 1707))"
    using sample_run_cold by (simp add: sample_request_def)
  from a b hothash_independent_of_coldpreview_size [OF a b] show ?thesis by simp
qed

text \<open>
  C2. For every successful call, the returned record has \<open>has_gps\<close> true exactly when its
  \<open>gps_latitude\<close> is present.
\<close>

theorem has_gps_iff_latitude:
  assumes "snd (process_image_endpoint E request) = Inr r"
  shows "has_gps r = (gps_latitude r \<noteq> None)"
  using successful_call_fields [OF assms] by auto

theorem has_gps_iff_latitude_witness:
  "snd (process_image_endpoint sample_collaborators (sample_request None)) =
     Inr (sample_egg None None None) \<and>
   has_gps (sample_egg None None None) \<and>
   gps_latitude (sample_egg None None None) = Some (599 / 10)"
proof -
  have a: "snd (process_image_endpoint sample_collaborators (sample_request None)) =
           Inr (sample_egg None None None)"
    using sample_run by simp
  from a has_gps_iff_latitude [OF a] show ?thesis by (simp add: sample_egg_def)
qed

text \<open>
  C3. A call whose \<open>coldpreview_size\<close> is given and is less than 150 fails with the error
  for the invalid parameter (status 400, naming the size), and it is refused before the
  file is looked at: no call on the file has been made, so the answer is the same when
  the file does not exist or is not a valid image.
\<close>

theorem small_coldpreview_size_rejected_first:
  assumes "coldpreview_size request = Some n" and "n < 150"
  shows "process_image_endpoint E request =
           ([], Inl (HTTPException 400
                  (Some (''coldpreview_size must be >= 150 (hotpreview size), got '' @ str_int n))))"
  using assms by (simp add: process_image_endpoint_def)

theorem small_coldpreview_size_rejected_first_witness:
  "coldpreview_size (missing_request (Some 100)) = Some 100 \<and> (100 :: int) < 150 \<and>
   path_exists sample_collaborators (file_path (missing_request (Some 100))) = Inr False \<and>
   process_image_endpoint sample_collaborators (missing_request (Some 100)) =
     ([], Inl (HTTPException 400
            (Some ''coldpreview_size must be >= 150 (hotpreview size), got 100'')))"
proof -
  have a: "coldpreview_size (missing_request (Some 100)) = Some 100"
    by (simp add: missing_request_def)
  have b: "(100 :: int) < 150" by simp
  have c: "path_exists sample_collaborators (file_path (missing_request (Some 100))) = Inr False"
    by (simp add: sample_collaborators_def missing_request_def)
  from a b c small_coldpreview_size_rejected_first [OF a b, of sample_collaborators]
  show ?thesis by (simp add: str_int_100)
qed

text \<open>
  C10. For every successful call, the three coldpreview fields of the record (the encoded
  preview, its width and its height) are all absent when no \<open>coldpreview_size\<close> was given
  and all present when one was given; they are never partially filled.
\<close>

theorem coldpreview_fields_all_or_none:
  assumes "snd (process_image_endpoint E request) = Inr r"
  shows "(coldpreview_size request = None \<longrightarrow>
            coldpreview_base64 r = None \<and> coldpreview_width r = None \<and>
            coldpreview_height r = None) \<and>
         (coldpreview_size request \<noteq> None \<longrightarrow>
            coldpreview_base64 r \<noteq> None \<and> coldpreview_width r \<noteq> None \<and>
            coldpreview_height r \<noteq> None)"
  using successful_call_fields [OF assms]
  by (cases "coldpreview_size request") auto

theorem coldpreview_fields_all_or_none_witness:
  "snd (process_image_endpoint sample_collaborators (sample_request (Some 2560))) =
     Inr (sample_egg (Some ''/9j/'') (Some 2560) (Some 1707)) \<and>
   coldpreview_size (sample_request (Some 2560)) = Some 2560 \<and>
   coldpreview_base64 (sample_egg (Some ''/9j/'') (Some 2560) (Some 1707)) = Some ''/9j/'' \<and>
   coldpreview_width (sample_egg (Some ''/9j/'') (Some 2560) (Some 1707)) = Some 2560 \<and>
   coldpreview_height (sample_egg (Some ''/9j/'') (Some 2560) (Some 1707)) = Some 1707"
proof -
  have a: "snd (process_image_endpoint sample_collaborators (sample_request (Some 2560))) =
           Inr (sample_egg (Some ''/9j/'') (Some 2560) (Some 1707))"
    using sample_run_cold by simp
  from a coldpreview_fields_all_or_none [OF a] show ?thesis
    by (simp add: sample_egg_def sample_request_def)
qed

text \<open>The calls of the \<^verbatim>\<open>try\<close> block: in order, each one after the success of the ones before.\<close>

lemma process_body_trace:
  assumes "process_body E request = (tr, res)"
  shows "prefix tr (drop 2 (orchestrator_sequence request)) \<and>
         tr \<noteq> [] \<and>
         (\<forall>ev \<in> set (butlast tr). succeeded E ev) \<and>
         (case step_error E (last tr) of
            Some err \<Rightarrow> \<exists>e. res = Inl e \<and> err = processing_failed e
          | None \<Rightarrow>
              tr = drop 2 (orchestrator_sequence request) \<and>
              (\<exists>md cs hp.
                 extract_basic E (file_path request) = Inr md \<and>
                 extract_camera_settings E (file_path request) = Inr cs \<and>
                 generate_hotpreview E (file_path request) = Inr hp \<and>
                 (case coldpreview_size request of
                    None \<Rightarrow>
                      res = PhotoEggResponse E
                              (CorePhoto hp None None None (file_path request) md cs)
                  | Some n \<Rightarrow>
                      \<exists>cp. generate_coldpreview E (file_path request) n = Inr cp \<and>
                        res = PhotoEggResponse E
                                (CorePhoto hp (Some (cp_base64 cp)) (Some (cp_width cp))
                                   (Some (cp_height cp)) (file_path request) md cs))))"
proof (cases "extract_basic E (file_path request)")
  case Inl
  with assms show ?thesis
    by (auto simp: process_body_def call_def orchestrator_sequence_def Let_def succeeded_def)
next
  case md: (Inr metadata)
  show ?thesis
  proof (cases "extract_camera_settings E (file_path request)")
    case Inl
    with assms md show ?thesis
      by (auto simp: process_body_def call_def orchestrator_sequence_def Let_def succeeded_def)
  next
    case cs: (Inr camera_settings)
    show ?thesis
    proof (cases "generate_hotpreview E (file_path request)")
      case Inl
      with assms md cs show ?thesis
        by (auto simp: process_body_def call_def orchestrator_sequence_def Let_def succeeded_def)
    next
      case hp: (Inr hotpreview)
      show ?thesis
      proof (cases "coldpreview_size request")
        case None
        with assms md cs hp show ?thesis
          by (auto simp: process_body_def call_def orchestrator_sequence_def Let_def
              succeeded_def)
      next
        case (Some max_size)
        with assms md cs hp show ?thesis
          by (cases "generate_coldpreview E (file_path request) max_size")
            (auto simp: process_body_def call_def orchestrator_sequence_def Let_def
              succeeded_def)
      qed
    qed
  qed
qed

text \<open>The calls after the check of the size, with the two that stand before the block.\<close>

lemma process_file_trace:
  assumes "process_file E request = (tr, res)"
  shows "prefix tr (orchestrator_sequence request) \<and>
         tr \<noteq> [] \<and>
         (\<forall>ev \<in> set (butlast tr). succeeded E ev) \<and>
         (case step_error E (last tr) of
            Some err \<Rightarrow> res = Inl err
          | None \<Rightarrow>
              tr = orchestrator_sequence request \<and>
              (\<exists>md cs hp cold.
                 extract_basic E (file_path request) = Inr md \<and>
                 extract_camera_settings E (file_path request) = Inr cs \<and>
                 generate_hotpreview E (file_path request) = Inr hp \<and>
                 (case coldpreview_size request of
                    None \<Rightarrow> cold = None
                  | Some n \<Rightarrow>
                      \<exists>cp. generate_coldpreview E (file_path request) n = Inr cp \<and>
                        cold = Some cp) \<and>
                 res = assembled E (file_path request) md cs hp cold))"
proof (cases "path_exists E (file_path request)")
  case (Inl e)
  with assms show ?thesis
    by (auto simp: process_file_def orchestrator_sequence_def Let_def)
next
  case (Inr found)
  show ?thesis
  proof (cases found)
    case False
    with assms Inr show ?thesis
      by (auto simp: process_file_def orchestrator_sequence_def Let_def)
  next
    case True
    with Inr have exists: "path_exists E (file_path request) = Inr True" by simp
    show ?thesis
    proof (cases "validate_file E (file_path request)")
      case (Inl e)
      with assms exists show ?thesis
        by (auto simp: process_file_def orchestrator_sequence_def Let_def succeeded_def)
    next
      case v: (Inr answer)
      obtain is_valid error where answer: "answer = (is_valid, error)"
        by (cases answer) auto
      show ?thesis
      proof (cases is_valid)
        case False
        with assms exists v answer show ?thesis
          by (auto simp: process_file_def orchestrator_sequence_def Let_def succeeded_def)
      next
        case True
        with v answer have valid: "validate_file E (file_path request) = Inr (True, error)"
          by simp
        obtain tr' res' where body: "process_body E request = (tr', res')"
          by (cases "process_body E request") auto
        note b = process_body_trace [OF body]
        then have ne: "tr' \<noteq> []" by simp
        have seq: "orchestrator_sequence request =
            PathExists (file_path request) # ValidateFile (file_path request) #
            drop 2 (orchestrator_sequence request)"
          by (simp add: orchestrator_sequence_def)
        have tr: "tr = PathExists (file_path request) # ValidateFile (file_path request) # tr'"
          and res: "res = (case res' of
                             Inl (Exception msg) \<Rightarrow>
                               Inl (HTTPException 400 (Some (''Processing failed: '' @ msg)))
                           | Inr r \<Rightarrow> Inr r)"
          using assms exists valid body
          by (auto simp: process_file_def Let_def split: sum.splits exn.splits)
        have p: "prefix tr (orchestrator_sequence request)"
          using b tr by (subst seq) simp
        have bl: "\<forall>ev \<in> set (butlast tr). succeeded E ev"
          using b tr ne exists valid by (auto simp: succeeded_def)
        have last: "last tr = last tr'"
          using tr ne by simp
        have fin: "case step_error E (last tr) of
            Some err \<Rightarrow> res = Inl err
          | None \<Rightarrow>
              tr = orchestrator_sequence request \<and>
              (\<exists>md cs hp cold.
                 extract_basic E (file_path request) = Inr md \<and>
                 extract_camera_settings E (file_path request) = Inr cs \<and>
                 generate_hotpreview E (file_path request) = Inr hp \<and>
                 (case coldpreview_size request of
                    None \<Rightarrow> cold = None
                  | Some n \<Rightarrow>
                      \<exists>cp. generate_coldpreview E (file_path request) n = Inr cp \<and>
                        cold = Some cp) \<and>
                 res = assembled E (file_path request) md cs hp cold)"
        proof (cases "step_error E (last tr')")
          case (Some err)
          with b obtain e where "res' = Inl e" "err = processing_failed e" by auto
          with res Some last show ?thesis
            by (simp add: processing_failed_def split: exn.splits)
        next
          case None
          with b have t: "tr' = drop 2 (orchestrator_sequence request)" by simp
          from t tr seq have full: "tr = orchestrator_sequence request" by simp
          from b None obtain md cs hp where
            calls: "extract_basic E (file_path request) = Inr md"
              "extract_camera_settings E (file_path request) = Inr cs"
              "generate_hotpreview E (file_path request) = Inr hp"
            and cold: "case coldpreview_size request of
                    None \<Rightarrow>
                      res' = PhotoEggResponse E
                              (CorePhoto hp None None None (file_path request) md cs)
                  | Some n \<Rightarrow>
                      \<exists>cp. generate_coldpreview E (file_path request) n = Inr cp \<and>
                        res' = PhotoEggResponse E
                                (CorePhoto hp (Some (cp_base64 cp)) (Some (cp_width cp))
                                   (Some (cp_height cp)) (file_path request) md cs)"
            by auto
          have "\<exists>cold.
                 (case coldpreview_size request of
                    None \<Rightarrow> cold = None
                  | Some n \<Rightarrow>
                      \<exists>cp. generate_coldpreview E (file_path request) n = Inr cp \<and>
                        cold = Some cp) \<and>
                 res = assembled E (file_path request) md cs hp cold"
          proof (cases "coldpreview_size request")
            case None
            with cold res assembly_refines [of E hp None "file_path request" md cs]
            show ?thesis by simp
          next
            case (Some n)
            with cold obtain cp where cp: "generate_coldpreview E (file_path request) n = Inr cp"
              and "res' = PhotoEggResponse E
                                (CorePhoto hp (Some (cp_base64 cp)) (Some (cp_width cp))
                                   (Some (cp_height cp)) (file_path request) md cs)"
              by auto
            with res assembly_refines [of E hp "Some cp" "file_path request" md cs]
            have "res = assembled E (file_path request) md cs hp (Some cp)" by simp
            with Some cp show ?thesis by simp
          qed
          with calls full None last show ?thesis by auto
        qed
        from p bl fin tr show ?thesis by simp
      qed
    qed
  qed
qed

text \<open>
  C5. Every call runs the steps of the orchestrator in this order: it classifies and
  validates the input, extracts the metadata, generates the hotpreview and its hash,
  generates the coldpreview when a size is given, and assembles the record. A size under
  150 ends the call at once, with the error for the parameter and no call made. Otherwise
  the calls made are a prefix of that sequence and every call but the last one made has
  succeeded; when the last one failed (the file is missing or invalid, a generator or the
  extractor raised), the call ends with the one error of that step and no record; when it
  succeeded, the whole sequence has run and the answer is what the assembly gives from
  the records of the collaborators. A record is returned only after every step has
  succeeded.
\<close>

theorem steps_in_order_first_failure_aborts:
  assumes "process_image_endpoint E request = (tr, res)"
  shows "(\<forall>n. coldpreview_size request = Some n \<and> n < 150 \<longrightarrow>
            tr = [] \<and>
            res = Inl (HTTPException 400
                    (Some (''coldpreview_size must be >= 150 (hotpreview size), got ''
                             @ str_int n)))) \<and>
         ((\<forall>n. coldpreview_size request = Some n \<longrightarrow> 150 \<le> n) \<longrightarrow>
            tr \<noteq> [] \<and>
            prefix tr (orchestrator_sequence request) \<and>
            (\<forall>ev \<in> set (butlast tr). succeeded E ev) \<and>
            (case step_error E (last tr) of
               Some err \<Rightarrow> res = Inl err
             | None \<Rightarrow>
                 tr = orchestrator_sequence request \<and>
                 (\<exists>md cs hp cold.
                    extract_basic E (file_path request) = Inr md \<and>
                    extract_camera_settings E (file_path request) = Inr cs \<and>
                    generate_hotpreview E (file_path request) = Inr hp \<and>
                    (case coldpreview_size request of
                       None \<Rightarrow> cold = None
                     | Some n \<Rightarrow>
                         \<exists>cp. generate_coldpreview E (file_path request) n = Inr cp \<and>
                           cold = Some cp) \<and>
                    res = assembled E (file_path request) md cs hp cold))) \<and>
         (\<forall>r. res = Inr r \<longrightarrow>
            tr = orchestrator_sequence request \<and> (\<forall>ev \<in> set tr. succeeded E ev))"
proof (cases "\<exists>n. coldpreview_size request = Some n \<and> n < 150")
  case True
  then obtain n where n: "coldpreview_size request = Some n" "n < 150" by blast
  with assms have "tr = []"
    "res = Inl (HTTPException 400
                    (Some (''coldpreview_size must be >= 150 (hotpreview size), got ''
                             @ str_int n)))"
    by (auto simp: process_image_endpoint_def)
  with n show ?thesis by auto
next
  case False
  then have ok: "\<forall>n. coldpreview_size request = Some n \<longrightarrow> 150 \<le> n"
    by (auto simp: not_less)
  with assms have "process_file E request = (tr, res)"
    by (auto simp: process_image_endpoint_def split: option.splits if_splits)
  note f = process_file_trace [OF this]
  then have ne: "tr \<noteq> []" by simp
  have all: "\<forall>ev \<in> set tr. succeeded E ev" if l: "succeeded E (last tr)"
  proof
    fix ev assume "ev \<in> set tr"
    then have "ev \<in> set (butlast tr) \<or> ev = last tr"
      using ne by (cases tr rule: rev_cases) auto
    with f l show "succeeded E ev" by auto
  qed
  have returned_all: "tr = orchestrator_sequence request \<and> (\<forall>ev \<in> set tr. succeeded E ev)"
    if "res = Inr r" for r
  proof (cases "step_error E (last tr)")
    case (Some err)
    with f that show ?thesis by simp
  next
    case None
    with f all show ?thesis by (simp add: succeeded_def)
  qed
  from f False returned_all show ?thesis by blast
qed

theorem steps_in_order_first_failure_aborts_witness:
  "process_image_endpoint sample_collaborators (sample_request (Some 2560)) =
     (orchestrator_sequence (sample_request (Some 2560)),
      Inr (sample_egg (Some ''/9j/'') (Some 2560) (Some 1707))) \<and>
   orchestrator_sequence (sample_request (Some 2560)) =
     [PathExists ''/photos/IMG_1234.jpg'', ValidateFile ''/photos/IMG_1234.jpg'',
      ExtractBasic ''/photos/IMG_1234.jpg'', ExtractCameraSettings ''/photos/IMG_1234.jpg'',
      GenerateHotpreview ''/photos/IMG_1234.jpg'',
      GenerateColdpreview ''/photos/IMG_1234.jpg'' 2560] \<and>
   succeeded sample_collaborators (GenerateColdpreview ''/photos/IMG_1234.jpg'' 2560) \<and>
   process_image_endpoint broken_collaborators (sample_request (Some 2560)) =
     ([PathExists ''/photos/IMG_1234.jpg'', ValidateFile ''/photos/IMG_1234.jpg'',
       ExtractBasic ''/photos/IMG_1234.jpg'', ExtractCameraSettings ''/photos/IMG_1234.jpg'',
       GenerateHotpreview ''/photos/IMG_1234.jpg''],
      Inl (HTTPException 400 (Some ''Processing failed: cannot identify image file''))) \<and>
   step_error broken_collaborators (GenerateHotpreview ''/photos/IMG_1234.jpg'') =
     Some (HTTPException 400 (Some ''Processing failed: cannot identify image file'')) \<and>
   succeeded broken_collaborators (ExtractCameraSettings ''/photos/IMG_1234.jpg'') \<and>
   process_image_endpoint sample_collaborators (missing_request (Some 2560)) =
     ([PathExists ''/photos/missing.jpg''],
      Inl (HTTPException 400 (Some ''File not found: /photos/missing.jpg''))) \<and>
   process_image_endpoint sample_collaborators (sample_request (Some 100)) =
     ([], Inl (HTTPException 400
            (Some ''coldpreview_size must be >= 150 (hotpreview size), got 100'')))"
proof -
  have seq: "orchestrator_sequence (sample_request (Some 2560)) =
     [PathExists ''/photos/IMG_1234.jpg'', ValidateFile ''/photos/IMG_1234.jpg'',
      ExtractBasic ''/photos/IMG_1234.jpg'', ExtractCameraSettings ''/photos/IMG_1234.jpg'',
      GenerateHotpreview ''/photos/IMG_1234.jpg'',
      GenerateColdpreview ''/photos/IMG_1234.jpg'' 2560]"
    by (simp add: orchestrator_sequence_def sample_request_def)
  have full: "process_image_endpoint sample_collaborators (sample_request (Some 2560)) =
     (orchestrator_sequence (sample_request (Some 2560)),
      Inr (sample_egg (Some ''/9j/'') (Some 2560) (Some 1707)))"
    using sample_run_cold seq by simp
  have broken: "process_image_endpoint broken_collaborators (sample_request (Some 2560)) =
     ([PathExists ''/photos/IMG_1234.jpg'', ValidateFile ''/photos/IMG_1234.jpg'',
       ExtractBasic ''/photos/IMG_1234.jpg'', ExtractCameraSettings ''/photos/IMG_1234.jpg'',
       GenerateHotpreview ''/photos/IMG_1234.jpg''],
      Inl (HTTPException 400 (Some ''Processing failed: cannot identify image file'')))"
    by (simp add: process_image_endpoint_def process_file_def process_body_def call_def Let_def
        broken_collaborators_def sample_collaborators_def sample_request_def)
  have missing: "process_image_endpoint sample_collaborators (missing_request (Some 2560)) =
     ([PathExists ''/photos/missing.jpg''],
      Inl (HTTPException 400 (Some ''File not found: /photos/missing.jpg'')))"
    by (simp add: process_image_endpoint_def process_file_def missing_request_def
        sample_collaborators_def Let_def)
  have small: "process_image_endpoint sample_collaborators (sample_request (Some 100)) =
     ([], Inl (HTTPException 400
            (Some (''coldpreview_size must be >= 150 (hotpreview size), got '' @ str_int 100))))"
    by (simp add: process_image_endpoint_def sample_request_def)
  have s1: "succeeded sample_collaborators (GenerateColdpreview ''/photos/IMG_1234.jpg'' 2560)"
    using steps_in_order_first_failure_aborts [OF full] seq
    by (simp add: sample_request_def)
  have s2: "step_error broken_collaborators (GenerateHotpreview ''/photos/IMG_1234.jpg'') =
     Some (HTTPException 400 (Some ''Processing failed: cannot identify image file'')) \<and>
     succeeded broken_collaborators (ExtractCameraSettings ''/photos/IMG_1234.jpg'')"
    using steps_in_order_first_failure_aborts [OF broken]
    by (auto simp: sample_request_def orchestrator_sequence_def processing_failed_def
        split: option.splits)
  from full seq s1 broken s2 missing small
    steps_in_order_first_failure_aborts [OF missing]
    steps_in_order_first_failure_aborts [OF small]
  show ?thesis by (simp add: str_int_100)
qed

text \<open>
  C7, as the code has it. For every successful call, the record carries the hotpreview in
  its field \<open>hotpreview_base64\<close> as the base64 text that the preview generator attached to
  the hotpreview, and the coldpreview, when a size was given, in \<open>coldpreview_base64\<close> as
  the base64 text of the generated coldpreview (absent otherwise). The record has no field
  for the encoded bytes: the base64 encoding is done inside the pipeline, before the
  record is assembled, and not by the transport layer.
\<close>

theorem record_carries_base64_of_previews:
  assumes "snd (process_image_endpoint E request) = Inr r"
  shows "\<exists>hp. generate_hotpreview E (file_path request) = Inr hp \<and>
              hotpreview_base64 r = hp_base64 hp \<and>
              (case coldpreview_size request of
                 None \<Rightarrow> coldpreview_base64 r = None
               | Some n \<Rightarrow>
                   \<exists>cp. generate_coldpreview E (file_path request) n = Inr cp \<and>
                        coldpreview_base64 r = Some (cp_base64 cp))"
  using successful_call_fields [OF assms]
  by (cases "coldpreview_size request") auto

theorem record_carries_base64_of_previews_witness:
  "snd (process_image_endpoint sample_collaborators (sample_request (Some 2560))) =
     Inr (sample_egg (Some ''/9j/'') (Some 2560) (Some 1707)) \<and>
   generate_hotpreview sample_collaborators (file_path (sample_request (Some 2560))) =
     Inr sample_hotpreview \<and>
   generate_coldpreview sample_collaborators (file_path (sample_request (Some 2560))) 2560 =
     Inr sample_coldpreview \<and>
   hotpreview_base64 (sample_egg (Some ''/9j/'') (Some 2560) (Some 1707)) =
     hp_base64 sample_hotpreview \<and>
   coldpreview_base64 (sample_egg (Some ''/9j/'') (Some 2560) (Some 1707)) =
     Some (cp_base64 sample_coldpreview)"
proof -
  have a: "snd (process_image_endpoint sample_collaborators (sample_request (Some 2560))) =
           Inr (sample_egg (Some ''/9j/'') (Some 2560) (Some 1707))"
    using sample_run_cold by simp
  from a record_carries_base64_of_previews [OF a] show ?thesis
    by (simp add: sample_collaborators_def sample_request_def)
qed

text \<open>
  C7 as the spec states it (the record carries the encoded bytes, and the base64 encoding
  is left to the transport layer) fails on the sample file: the hotpreview of the file is
  the three bytes \<open>FF D8 FF\<close>, and the field of the record holds their base64 text
  \<^verbatim>\<open>/9j/\<close>, which is not the encoded bytes.
\<close>

theorem record_carries_encoded_bytes_counterexample:
  "snd (process_image_endpoint sample_collaborators (sample_request None)) =
     Inr (sample_egg None None None) \<and>
   generate_hotpreview sample_collaborators (file_path (sample_request None)) =
     Inr sample_hotpreview \<and>
   hp_bytes sample_hotpreview = [CHR 0xFF, CHR 0xD8, CHR 0xFF] \<and>
   hotpreview_base64 (sample_egg None None None) = ''/9j/'' \<and>
   hotpreview_base64 (sample_egg None None None) = b64encode (hp_bytes sample_hotpreview) \<and>
   hotpreview_base64 (sample_egg None None None) \<noteq> hp_bytes sample_hotpreview"
proof -
  have a: "snd (process_image_endpoint sample_collaborators (sample_request None)) =
           Inr (sample_egg None None None)"
    using sample_run by simp
  have b: "b64encode jpeg_bytes = ''/9j/''"
    by (simp add: jpeg_bytes_def b64_char_def)
  from a b show ?thesis
    by (simp add: sample_collaborators_def sample_egg_def sample_hotpreview_def jpeg_bytes_def)
qed

section \<open>Properties of the metadata extractor\<close>

lemma gps_coordinate_absent:
  "tag_value coordinate = None \<or> tag_value reference = None \<Longrightarrow>
   gps_coordinate positive negative coordinate reference = None"
  by (auto simp: gps_coordinate_def split: Option.bind_splits)

lemma dms_to_degrees_value:
  "0 < dd \<Longrightarrow> 0 < md \<Longrightarrow> 0 < sd \<Longrightarrow>
   dms_to_degrees ((dn, dd), (mn, md), (sn, sd)) =
     Some (of_nat dn / of_nat dd + of_nat mn / of_nat md / 60 + of_nat sn / of_nat sd / 3600)"
  by (simp add: dms_to_degrees_def rational_value_def)

text \<open>
  C8. GPS extraction combines the degree, minute and second rationals of a coordinate tag
  with the letter of its hemisphere reference tag (N or S, E or W) into signed decimal
  degrees: the value \<open>d + m / 60 + s / 3600\<close> for N and E, its negation for S and W. When
  the coordinate tag or its reference tag is absent, the coordinate of the record is
  absent; it is never set to zero.
\<close>

theorem gps_signed_decimal_degrees_or_absent:
  "md_gps_latitude (ExifExtractor_extract_basic x c) =
     gps_coordinate ''N'' ''S'' (GPSLatitude x) (GPSLatitudeRef x) \<and>
   md_gps_longitude (ExifExtractor_extract_basic x c) =
     gps_coordinate ''E'' ''W'' (GPSLongitude x) (GPSLongitudeRef x) \<and>
   (tag_value coordinate = None \<or> tag_value reference = None \<longrightarrow>
      gps_coordinate positive negative coordinate reference = None \<and>
      gps_coordinate positive negative coordinate reference \<noteq> Some 0) \<and>
   (0 < dd \<and> 0 < md \<and> 0 < sd \<and> positive \<noteq> negative \<longrightarrow>
      gps_coordinate positive negative (Decoded ((dn, dd), (mn, md), (sn, sd)))
          (Decoded positive) =
        Some (of_nat dn / of_nat dd + of_nat mn / of_nat md / 60 + of_nat sn / of_nat sd / 3600) \<and>
      gps_coordinate positive negative (Decoded ((dn, dd), (mn, md), (sn, sd)))
          (Decoded negative) =
        Some (- (of_nat dn / of_nat dd + of_nat mn / of_nat md / 60
                   + of_nat sn / of_nat sd / 3600)))"
proof -
  have fields:
    "md_gps_latitude (ExifExtractor_extract_basic x c) =
       gps_coordinate ''N'' ''S'' (GPSLatitude x) (GPSLatitudeRef x)"
    "md_gps_longitude (ExifExtractor_extract_basic x c) =
       gps_coordinate ''E'' ''W'' (GPSLongitude x) (GPSLongitudeRef x)"
    by (simp_all add: ExifExtractor_extract_basic_def)
  have absent: "tag_value coordinate = None \<or> tag_value reference = None \<longrightarrow>
      gps_coordinate positive negative coordinate reference = None \<and>
      gps_coordinate positive negative coordinate reference \<noteq> Some 0"
    using gps_coordinate_absent [of coordinate reference positive negative] by auto
  have signed: "0 < dd \<and> 0 < md \<and> 0 < sd \<and> positive \<noteq> negative \<longrightarrow>
      gps_coordinate positive negative (Decoded ((dn, dd), (mn, md), (sn, sd)))
          (Decoded positive) =
        Some (of_nat dn / of_nat dd + of_nat mn / of_nat md / 60 + of_nat sn / of_nat sd / 3600) \<and>
      gps_coordinate positive negative (Decoded ((dn, dd), (mn, md), (sn, sd)))
          (Decoded negative) =
        Some (- (of_nat dn / of_nat dd + of_nat mn / of_nat md / 60
                   + of_nat sn / of_nat sd / 3600))"
    by (auto simp: gps_coordinate_def hemisphere_sign_def dms_to_degrees_value)
  from fields absent signed show ?thesis by blast
qed

theorem gps_signed_decimal_degrees_or_absent_witness:
  "md_gps_latitude (ExifExtractor_extract_basic intact_exif sample_container) = Some (599 / 10) \<and>
   md_gps_longitude (ExifExtractor_extract_basic intact_exif sample_container) = Some (- (43 / 4)) \<and>
   tag_value (GPSLatitude corrupted_exif) = None \<and>
   md_gps_latitude (ExifExtractor_extract_basic corrupted_exif sample_container) = None \<and>
   tag_value (GPSLongitudeRef corrupted_exif) = None \<and>
   md_gps_longitude (ExifExtractor_extract_basic corrupted_exif sample_container) = None"
proof -
  note t = gps_signed_decimal_degrees_or_absent
  have lat: "gps_coordinate ''N'' ''S'' (GPSLatitude intact_exif) (GPSLatitudeRef intact_exif) =
      Some (599 / 10)"
    using t [of intact_exif sample_container "Decoded ((59, 1), (54, 1), (0, 1))" "Decoded ''N''"
        "''N''" "''S''" 1 1 1 59 54 0]
    by (simp add: intact_exif_def)
  have lon: "gps_coordinate ''E'' ''W'' (GPSLongitude intact_exif) (GPSLongitudeRef intact_exif) =
      Some (- (43 / 4))"
    using t [of intact_exif sample_container "Decoded ((10, 1), (45, 1), (0, 1))" "Decoded ''W''"
        "''E''" "''W''" 1 1 1 10 45 0]
    by (simp add: intact_exif_def)
  have clat: "gps_coordinate ''N'' ''S'' (GPSLatitude corrupted_exif) (GPSLatitudeRef corrupted_exif) =
      None"
    using t [of corrupted_exif sample_container "GPSLatitude corrupted_exif"
        "GPSLatitudeRef corrupted_exif" "''N''" "''S''" 1 1 1 0 0 0]
    by (simp add: corrupted_exif_def)
  have clon: "gps_coordinate ''E'' ''W'' (GPSLongitude corrupted_exif) (GPSLongitudeRef corrupted_exif) =
      None"
    using t [of corrupted_exif sample_container "GPSLongitude corrupted_exif"
        "GPSLongitudeRef corrupted_exif" "''E''" "''W''" 1 1 1 0 0 0]
    by (simp add: corrupted_exif_def)
  from lat lon clat clon
    t [of intact_exif sample_container Missing Missing "''N''" "''S''" 1 1 1 0 0 0]
    t [of corrupted_exif sample_container Missing Missing "''N''" "''S''" 1 1 1 0 0 0]
  show ?thesis by (simp add: corrupted_exif_def)
qed

text \<open>
  C9. The \<open>taken_at\<close> timestamp is chosen in this order of precedence:
  \<^verbatim>\<open>DateTimeOriginal\<close> when it is present, otherwise \<^verbatim>\<open>DateTimeDigitized\<close>, otherwise the
  generic \<^verbatim>\<open>DateTime\<close> tag, otherwise the modification time of the source file.
\<close>

theorem taken_at_precedence:
  "md_taken_at (ExifExtractor_extract_basic x c) = Some (select_taken_at x c) \<and>
   (DateTimeOriginal x = Decoded t \<longrightarrow> select_taken_at x c = t) \<and>
   (tag_value (DateTimeOriginal x) = None \<and> DateTimeDigitized x = Decoded t \<longrightarrow>
      select_taken_at x c = t) \<and>
   (tag_value (DateTimeOriginal x) = None \<and> tag_value (DateTimeDigitized x) = None \<and>
    DateTime x = Decoded t \<longrightarrow>
      select_taken_at x c = t) \<and>
   (tag_value (DateTimeOriginal x) = None \<and> tag_value (DateTimeDigitized x) = None \<and>
    tag_value (DateTime x) = None \<longrightarrow>
      select_taken_at x c = ct_mtime c)"
  by (simp add: ExifExtractor_extract_basic_def select_taken_at_def)

theorem taken_at_precedence_witness:
  "DateTimeOriginal intact_exif = Decoded ''2024-05-17T10:15:30'' \<and>
   md_taken_at (ExifExtractor_extract_basic intact_exif sample_container) =
     Some ''2024-05-17T10:15:30'' \<and>
   tag_value (DateTimeOriginal corrupted_exif) = None \<and>
   DateTimeDigitized corrupted_exif = Decoded ''2024-05-17T10:15:31'' \<and>
   md_taken_at (ExifExtractor_extract_basic corrupted_exif sample_container) =
     Some ''2024-05-17T10:15:31''"
  using taken_at_precedence [of intact_exif sample_container "''2024-05-17T10:15:30''"]
    taken_at_precedence [of corrupted_exif sample_container "''2024-05-17T10:15:31''"]
  by (simp add: intact_exif_def corrupted_exif_def)

text \<open>
  The endpoint with this extractor: extraction has returned on every call, so whether
  the call answers with a record does not depend on what the tags decode to.
\<close>

lemma with_ExifExtractor_fields:
  "path_exists (with_ExifExtractor E rx rc) = path_exists E"
  "validate_file (with_ExifExtractor E rx rc) = validate_file E"
  "generate_hotpreview (with_ExifExtractor E rx rc) = generate_hotpreview E"
  "generate_coldpreview (with_ExifExtractor E rx rc) = generate_coldpreview E"
  "validation_error (with_ExifExtractor E rx rc) = validation_error E"
  "extract_basic (with_ExifExtractor E rx rc) p =
     Inr (ExifExtractor_extract_basic (rx p) (rc p))"
  "extract_camera_settings (with_ExifExtractor E rx rc) p =
     Inr (ExifExtractor_extract_camera_settings (rx p))"
  by (simp_all add: with_ExifExtractor_def)

text \<open>
  C4. On an input whose container is valid, a tag that fails to decode (a corrupted EXIF
  block in an otherwise valid JPEG) never makes the call fail. Extraction returns its
  records whatever the tags decode to, so a call that returns a record for one EXIF block
  returns a record, with the same hotpreview, for any other EXIF block of the same file;
  the optional metadata fields whose tags are missing or malformed are absent in it.
\<close>

theorem corrupted_tag_never_fails_the_call:
  assumes "snd (process_image_endpoint (with_ExifExtractor E rx1 rc) request) = Inr r1"
  shows "\<exists>r2. snd (process_image_endpoint (with_ExifExtractor E rx2 rc) request) = Inr r2 \<and>
           returned (extract_basic (with_ExifExtractor E rx2 rc) (file_path request)) \<and>
           returned (extract_camera_settings (with_ExifExtractor E rx2 rc) (file_path request)) \<and>
           hothash r2 = hothash r1 \<and>
           (tag_value (Make (rx2 (file_path request))) = None \<longrightarrow> camera_make r2 = None) \<and>
           (tag_value (Model (rx2 (file_path request))) = None \<longrightarrow> camera_model r2 = None) \<and>
           (tag_value (GPSLatitude (rx2 (file_path request))) = None \<or>
            tag_value (GPSLatitudeRef (rx2 (file_path request))) = None \<longrightarrow>
              gps_latitude r2 = None \<and> \<not> has_gps r2) \<and>
           (tag_value (GPSLongitude (rx2 (file_path request))) = None \<or>
            tag_value (GPSLongitudeRef (rx2 (file_path request))) = None \<longrightarrow>
              gps_longitude r2 = None) \<and>
           (tag_value (ISOSpeedRatings (rx2 (file_path request))) = None \<longrightarrow> iso r2 = None) \<and>
           (tag_value (FNumber (rx2 (file_path request))) = None \<and>
            tag_value (ApertureValue (rx2 (file_path request))) = None \<longrightarrow> aperture r2 = None) \<and>
           (tag_value (ExposureTime (rx2 (file_path request))) = None \<longrightarrow>
              shutter_speed r2 = None) \<and>
           (tag_value (FocalLength (rx2 (file_path request))) = None \<longrightarrow>
              focal_length r2 = None) \<and>
           (tag_value (LensModel (rx2 (file_path request))) = None \<longrightarrow> lens_model r2 = None) \<and>
           (tag_value (LensMake (rx2 (file_path request))) = None \<longrightarrow> lens_make r2 = None)"
proof -
  let ?fp = "file_path request"
  let ?E2 = "with_ExifExtractor E rx2 rc"
  let ?md = "ExifExtractor_extract_basic (rx2 ?fp) (rc ?fp)"
  let ?cs = "ExifExtractor_extract_camera_settings (rx2 ?fp)"
  from successful_call [OF assms] obtain error hp where
    ex: "path_exists E ?fp = Inr True" and valid: "validate_file E ?fp = Inr (True, error)"
    and hp: "generate_hotpreview E ?fp = Inr hp"
    and cold: "case coldpreview_size request of
                 None \<Rightarrow> True
               | Some n \<Rightarrow> 150 \<le> n \<and> (\<exists>cp. generate_coldpreview E ?fp n = Inr cp)"
    unfolding with_ExifExtractor_fields
    by (cases "coldpreview_size request") auto
  from successful_call_fields [OF assms] hp have h1: "hothash r1 = hp_hothash hp"
    unfolding with_ExifExtractor_fields by auto
  obtain cpf where cpf: "\<forall>n. coldpreview_size request = Some n \<longrightarrow>
      generate_coldpreview E ?fp n = Inr (cpf n)"
    using cold by (cases "coldpreview_size request") (auto intro: that [of "\<lambda>n. cp" for cp])
  have size_ok: "\<forall>n. coldpreview_size request = Some n \<longrightarrow> 150 \<le> n"
    using cold by (cases "coldpreview_size request") auto
  have run: "process_image_endpoint ?E2 request =
      (orchestrator_sequence request,
       assembled ?E2 ?fp ?md ?cs hp (map_option cpf (coldpreview_size request)))"
    by (rule call_returns)
      (use size_ok ex valid hp cpf in \<open>simp_all add: with_ExifExtractor_fields\<close>)
  obtain w h where "md_width ?md = Some w" "md_height ?md = Some h"
    by (simp add: ExifExtractor_extract_basic_def)
  from assembled_returns [OF this] obtain r2 where
    valid2: "assembled ?E2 ?fp ?md ?cs hp (map_option cpf (coldpreview_size request)) = Inr r2"
    by blast
  with run have run2: "snd (process_image_endpoint ?E2 request) = Inr r2"
    by simp
  note r2 = assembled_Inr [OF valid2]
  have r2_md: "camera_make r2 = md_camera_make ?md" "camera_model r2 = md_camera_model ?md"
    "gps_latitude r2 = md_gps_latitude ?md" "gps_longitude r2 = md_gps_longitude ?md"
    "has_gps r2 = (md_gps_latitude ?md \<noteq> None)" "hothash r2 = hp_hothash hp"
    using r2 by simp_all
  have r2_cs: "iso r2 = cs_iso ?cs" "aperture r2 = cs_aperture ?cs"
    "shutter_speed r2 = cs_shutter_speed ?cs" "focal_length r2 = cs_focal_length ?cs"
    "lens_model r2 = cs_lens_model ?cs" "lens_make r2 = cs_lens_make ?cs"
    using r2 by simp_all
  have md: "md_camera_make ?md = tag_value (Make (rx2 ?fp))"
    "md_camera_model ?md = tag_value (Model (rx2 ?fp))"
    "md_gps_latitude ?md =
       gps_coordinate ''N'' ''S'' (GPSLatitude (rx2 ?fp)) (GPSLatitudeRef (rx2 ?fp))"
    "md_gps_longitude ?md =
       gps_coordinate ''E'' ''W'' (GPSLongitude (rx2 ?fp)) (GPSLongitudeRef (rx2 ?fp))"
    by (simp_all add: ExifExtractor_extract_basic_def)
  have cs: "cs_iso ?cs = tag_value (ISOSpeedRatings (rx2 ?fp))"
    "cs_aperture ?cs =
       first_present [tag_value (FNumber (rx2 ?fp)), tag_value (ApertureValue (rx2 ?fp))]"
    "cs_shutter_speed ?cs = tag_value (ExposureTime (rx2 ?fp))"
    "cs_focal_length ?cs = tag_value (FocalLength (rx2 ?fp))"
    "cs_lens_model ?cs = tag_value (LensModel (rx2 ?fp))"
    "cs_lens_make ?cs = tag_value (LensMake (rx2 ?fp))"
    by (simp_all add: ExifExtractor_extract_camera_settings_def)
  show ?thesis
  proof (intro exI [of _ r2] conjI impI)
    show "snd (process_image_endpoint (with_ExifExtractor E rx2 rc) request) = Inr r2"
      by (rule run2)
    show "hothash r2 = hothash r1"
      using h1 r2_md by simp
    show "gps_latitude r2 = None" "\<not> has_gps r2"
      if "tag_value (GPSLatitude (rx2 ?fp)) = None \<or> tag_value (GPSLatitudeRef (rx2 ?fp)) = None"
      using gps_coordinate_absent [OF that] r2_md md by simp_all
    show "gps_longitude r2 = None"
      if "tag_value (GPSLongitude (rx2 ?fp)) = None \<or> tag_value (GPSLongitudeRef (rx2 ?fp)) = None"
      using gps_coordinate_absent [OF that] r2_md md by simp
    show "aperture r2 = None"
      if "tag_value (FNumber (rx2 ?fp)) = None \<and> tag_value (ApertureValue (rx2 ?fp)) = None"
      using that r2_cs cs by simp
  qed (simp_all add: with_ExifExtractor_fields r2_md r2_cs md cs)
qed

theorem corrupted_tag_never_fails_the_call_witness:
  "snd (process_image_endpoint
          (with_ExifExtractor sample_collaborators (\<lambda>p. intact_exif) (\<lambda>p. sample_container))
          (sample_request None)) =
     Inr (sample_egg None None None \<lparr> gps_longitude := Some (- (43 / 4)) \<rparr>) \<and>
   Make corrupted_exif = Malformed \<and>
   GPSLatitude corrupted_exif = Malformed \<and>
   snd (process_image_endpoint
          (with_ExifExtractor sample_collaborators (\<lambda>p. corrupted_exif) (\<lambda>p. sample_container))
          (sample_request None)) =
     Inr (sample_egg None None None
            \<lparr> taken_at := Some ''2024-05-17T10:15:31'', camera_make := None,
              camera_model := None, gps_latitude := None, gps_longitude := None,
              has_gps := False, iso := None \<rparr>)"
proof -
  have run: "snd (process_image_endpoint
      (with_ExifExtractor sample_collaborators (\<lambda>p. x) (\<lambda>p. sample_container))
      (sample_request None)) =
     (case PhotoEggResponse sample_collaborators
             (CorePhoto sample_hotpreview None None None ''/photos/IMG_1234.jpg''
                (ExifExtractor_extract_basic x sample_container)
                (ExifExtractor_extract_camera_settings x)) of
        Inl (Exception msg) \<Rightarrow> Inl (HTTPException 400 (Some (''Processing failed: '' @ msg)))
      | Inr r \<Rightarrow> Inr r)" for x
    by (simp add: process_image_endpoint_def process_file_def process_body_def call_def Let_def
        with_ExifExtractor_def sample_collaborators_def sample_request_def
        PhotoEggResponse_def CorePhoto_def ExifExtractor_extract_basic_def)
  have intact: "PhotoEggResponse sample_collaborators
       (CorePhoto sample_hotpreview None None None ''/photos/IMG_1234.jpg''
          (ExifExtractor_extract_basic intact_exif sample_container)
          (ExifExtractor_extract_camera_settings intact_exif)) =
     Inr (sample_egg None None None \<lparr> gps_longitude := Some (- (43 / 4)) \<rparr>)"
    by (simp add: PhotoEggResponse_def CorePhoto_def sample_egg_def
        sample_hotpreview_def sample_path_name
        ExifExtractor_extract_basic_def ExifExtractor_extract_camera_settings_def
        intact_exif_def sample_container_def select_taken_at_def gps_coordinate_def
        dms_to_degrees_def rational_value_def hemisphere_sign_def)
  have corrupted: "PhotoEggResponse sample_collaborators
       (CorePhoto sample_hotpreview None None None ''/photos/IMG_1234.jpg''
          (ExifExtractor_extract_basic corrupted_exif sample_container)
          (ExifExtractor_extract_camera_settings corrupted_exif)) =
     Inr (sample_egg None None None
            \<lparr> taken_at := Some ''2024-05-17T10:15:31'', camera_make := None,
              camera_model := None, gps_latitude := None, gps_longitude := None,
              has_gps := False, iso := None \<rparr>)"
    by (simp add: PhotoEggResponse_def CorePhoto_def sample_egg_def
        sample_hotpreview_def sample_path_name
        ExifExtractor_extract_basic_def ExifExtractor_extract_camera_settings_def
        corrupted_exif_def intact_exif_def sample_container_def select_taken_at_def
        gps_coordinate_def dms_to_degrees_def rational_value_def hemisphere_sign_def)
  have a: "snd (process_image_endpoint
          (with_ExifExtractor sample_collaborators (\<lambda>p. intact_exif) (\<lambda>p. sample_container))
          (sample_request None)) =
     Inr (sample_egg None None None \<lparr> gps_longitude := Some (- (43 / 4)) \<rparr>)"
    using run [of intact_exif] intact by simp
  have m: "Make corrupted_exif = Malformed" "GPSLatitude corrupted_exif = Malformed"
    by (simp_all add: corrupted_exif_def)
  from corrupted_tag_never_fails_the_call [OF a, of "\<lambda>p. corrupted_exif"]
    run [of corrupted_exif] corrupted m a
  show ?thesis by auto
qed

section \<open>Properties of the preview generator\<close>

lemma scale_shorter_edge_covers:
  assumes "0 < w" and "0 < h" and "scale_shorter_edge t (w, h) = (sw, sh)"
  shows "min sw sh = t \<and> t \<le> sw \<and> t \<le> sh"
proof (cases "w \<le> h")
  case True
  then have "t * w \<le> h * t + w div 2"
    by (simp add: mult.commute trans_le_add1)
  then have "t * w div w \<le> (h * t + w div 2) div w"
    by (rule div_le_mono)
  with assms True show ?thesis
    by (auto simp: scale_shorter_edge_def)
next
  case False
  then have "t * h \<le> w * t + h div 2"
    by (simp add: mult.commute trans_le_add1)
  then have "t * h div h \<le> (w * t + h div 2) div h"
    by (rule div_le_mono)
  with assms False show ?thesis
    by (auto simp: scale_shorter_edge_def)
qed

lemma center_crop_inside:
  assumes "t \<le> sw" and "t \<le> sh" and "center_crop t (sw, sh) = (l, u, rt, lo)"
  shows "rt \<le> sw \<and> lo \<le> sh \<and> rt - l = t \<and> lo - u = t \<and>
         l \<le> sw - rt \<and> sw - rt \<le> l + 1 \<and> u \<le> sh - lo \<and> sh - lo \<le> u + 1"
proof -
  from assms(3) have l: "l = (sw - t) div 2" and u: "u = (sh - t) div 2"
    and rt: "rt = l + t" and lo: "lo = u + t"
    by (simp_all add: center_crop_def Let_def)
  from l rt assms(1) have "rt \<le> sw \<and> rt - l = t \<and> l \<le> sw - rt \<and> sw - rt \<le> l + 1"
    by arith
  moreover from u lo assms(2) have "lo \<le> sh \<and> lo - u = t \<and> u \<le> sh - lo \<and> sh - lo \<le> u + 1"
    by arith
  ultimately show ?thesis by simp
qed

lemma hotpreview_size_150:
  assumes "0 < w" and "0 < h"
  shows "hotpreview_size (w, h) = (150, 150)"
proof -
  obtain sw sh where s: "scale_shorter_edge 150 (w, h) = (sw, sh)"
    by (cases "scale_shorter_edge 150 (w, h)") auto
  obtain l u rt lo where c: "center_crop 150 (sw, sh) = (l, u, rt, lo)"
    by (cases "center_crop 150 (sw, sh)") auto
  from scale_shorter_edge_covers [OF assms s] have "150 \<le> sw" "150 \<le> sh" by simp_all
  from center_crop_inside [OF this c] s c show ?thesis
    by (simp add: hotpreview_size_def box_size_def)
qed

lemma PreviewGenerator_generate_hotpreview_Inr:
  assumes "PreviewGenerator_generate_hotpreview decode encode digest p = Inr hp"
  shows "\<exists>w h. decode p = Some (w, h) \<and> 0 < w \<and> 0 < h \<and>
           hp_width hp = 150 \<and> hp_height hp = 150 \<and>
           hp_bytes hp = encode p \<and> hp_base64 hp = b64encode (encode p) \<and>
           hp_hothash hp = digest (encode p)"
proof (cases "decode p")
  case None
  with assms show ?thesis by (simp add: PreviewGenerator_generate_hotpreview_def)
next
  case (Some wh)
  obtain w h where wh: "wh = (w, h)" by (cases wh) auto
  with assms Some have pos: "0 < w" "0 < h"
    by (auto simp: PreviewGenerator_generate_hotpreview_def split: if_splits)
  from hotpreview_size_150 [OF pos] assms Some wh pos show ?thesis
    by (auto simp: PreviewGenerator_generate_hotpreview_def)
qed

text \<open>
  C6. For every successful call, whatever the aspect ratio of the source image, the record
  has \<open>hotpreview_width = 150\<close> and \<open>hotpreview_height = 150\<close>. The hotpreview is made by
  scaling the image so that its shorter edge reaches 150 and cropping the longer axis
  around the centre: the crop box is 150 by 150, lies inside the scaled image (nothing is
  padded), and its margins on the two sides differ by at most one pixel.
\<close>

theorem hotpreview_is_150_by_150:
  assumes "snd (process_image_endpoint
                  (E \<lparr> generate_hotpreview :=
                         PreviewGenerator_generate_hotpreview decode encode digest \<rparr>)
                  request) = Inr r"
  shows "hotpreview_width r = 150 \<and> hotpreview_height r = 150 \<and>
         (\<exists>w h sw sh l u rt lo.
            decode (file_path request) = Some (w, h) \<and> 0 < w \<and> 0 < h \<and>
            scale_shorter_edge 150 (w, h) = (sw, sh) \<and> min sw sh = 150 \<and>
            center_crop 150 (sw, sh) = (l, u, rt, lo) \<and>
            rt \<le> sw \<and> lo \<le> sh \<and> rt - l = 150 \<and> lo - u = 150 \<and>
            l \<le> sw - rt \<and> sw - rt \<le> l + 1 \<and> u \<le> sh - lo \<and> sh - lo \<le> u + 1)"
proof -
  let ?fp = "file_path request"
  from successful_call_fields [OF assms] obtain hp where
    hp: "PreviewGenerator_generate_hotpreview decode encode digest ?fp = Inr hp"
    and r: "hotpreview_width r = hp_width hp" "hotpreview_height r = hp_height hp"
    by auto
  from PreviewGenerator_generate_hotpreview_Inr [OF hp] obtain w h where
    d: "decode ?fp = Some (w, h)" and pos: "0 < w" "0 < h"
    and dims: "hp_width hp = 150" "hp_height hp = 150"
    by blast
  obtain sw sh where s: "scale_shorter_edge 150 (w, h) = (sw, sh)"
    by (cases "scale_shorter_edge 150 (w, h)") auto
  obtain l u rt lo where c: "center_crop 150 (sw, sh) = (l, u, rt, lo)"
    by (cases "center_crop 150 (sw, sh)") auto
  note cover = scale_shorter_edge_covers [OF pos s]
  then have "150 \<le> sw" "150 \<le> sh" by simp_all
  note inside = center_crop_inside [OF this c]
  from r dims have "hotpreview_width r = 150 \<and> hotpreview_height r = 150"
    by simp
  moreover from d pos s c cover inside have
    "decode ?fp = Some (w, h) \<and> 0 < w \<and> 0 < h \<and>
     scale_shorter_edge 150 (w, h) = (sw, sh) \<and> min sw sh = 150 \<and>
     center_crop 150 (sw, sh) = (l, u, rt, lo) \<and>
     rt \<le> sw \<and> lo \<le> sh \<and> rt - l = 150 \<and> lo - u = 150 \<and>
     l \<le> sw - rt \<and> sw - rt \<le> l + 1 \<and> u \<le> sh - lo \<and> sh - lo \<le> u + 1"
    by simp
  ultimately show ?thesis by blast
qed

theorem hotpreview_is_150_by_150_witness:
  "snd (process_image_endpoint
          (sample_collaborators
             \<lparr> generate_hotpreview :=
                 PreviewGenerator_generate_hotpreview
                   (\<lambda>p. Some (6000, 4000)) (\<lambda>p. jpeg_bytes) sample_digest \<rparr>)
          (sample_request None)) = Inr (sample_egg None None None) \<and>
   hotpreview_width (sample_egg None None None) = 150 \<and>
   hotpreview_height (sample_egg None None None) = 150 \<and>
   scale_shorter_edge 150 (6000, 4000) = (225, 150) \<and>
   center_crop 150 (225, 150) = (37, 0, 187, 150)"
proof -
  have s: "scale_shorter_edge 150 (6000, 4000) = (225, 150)"
    by (simp add: scale_shorter_edge_def)
  have c: "center_crop 150 (225, 150) = (37, 0, 187, 150)"
    by (simp add: center_crop_def)
  have b: "b64encode jpeg_bytes = ''/9j/''"
    by (simp add: jpeg_bytes_def b64_char_def)
  have g: "PreviewGenerator_generate_hotpreview
             (\<lambda>p. Some (6000, 4000)) (\<lambda>p. jpeg_bytes) sample_digest p = Inr sample_hotpreview" for p
    by (simp add: PreviewGenerator_generate_hotpreview_def hotpreview_size_def box_size_def
        s c b sample_digest_def sample_hotpreview_def)
  have a: "snd (process_image_endpoint
          (sample_collaborators
             \<lparr> generate_hotpreview :=
                 PreviewGenerator_generate_hotpreview
                   (\<lambda>p. Some (6000, 4000)) (\<lambda>p. jpeg_bytes) sample_digest \<rparr>)
          (sample_request None)) = Inr (sample_egg None None None)"
    by (simp add: process_image_endpoint_def process_file_def process_body_def call_def Let_def
        sample_collaborators_def sample_request_def sample_PhotoEggResponse g)
  from a s c hotpreview_is_150_by_150 [OF a] show ?thesis by simp
qed

end
